theory Spec2Isabelle
  imports Main
begin

section \<open>The grammar loader of ohm (src/main.js)\<close>

text \<open>
  The file \<^verbatim>\<open>src/main.js\<close> is the loader: a dictionary of semantic actions
  (\<^verbatim>\<open>makeGrammarActionDict\<close>) that is run over the parse tree of a grammar
  declaration and drives a \<^verbatim>\<open>Builder\<close>; the entry points \<^verbatim>\<open>compileAndLoad\<close>,
  \<^verbatim>\<open>makeGrammar\<close>, \<^verbatim>\<open>makeGrammars\<close>; and the registry of namespaces
  (\<^verbatim>\<open>exports.namespace\<close>).  \<^verbatim>\<open>Builder.js\<close> and \<^verbatim>\<open>Namespace.js\<close> are modules
  of their own that the file requires; what the loader needs of them is modelled from
  the specification, and each such definition says so.
\<close>

subsection \<open>Values and errors\<close>

text \<open>
  The primitive values that reach \<^verbatim>\<open>builder._\<close>: the named constants, and the results
  of the \<^verbatim>\<open>string\<close>, \<^verbatim>\<open>regexp\<close> and \<^verbatim>\<open>number\<close> actions (computed there by
  \<^verbatim>\<open>unescapeChar\<close>, \<^verbatim>\<open>new RegExp\<close> and \<^verbatim>\<open>parseInt\<close>, which are not of this
  repository; the tree carries the value they return).
\<close>

datatype jsprim =
    JUndefined
  | JNull
  | JBool bool
  | JNumber int
  | JString string
  | JRegExp string

text \<open>
  Every way in which the loader stops without a result.  The first three are the
  failures the specification names for the Builder and the Namespace.
  \<^verbatim>\<open>MalformedSourceError s\<close> is the branch of \<^verbatim>\<open>compileAndLoad\<close> that calls
  \<^verbatim>\<open>browser.error('invalid input in:', s)\<close>.  \<^verbatim>\<open>TypeError\<close> is JavaScript's own
  failure of a method call on a value that has no such method (\<^verbatim>\<open>undefined.getGrammar\<close>).
\<close>

datatype error =
    DuplicateRuleError string
  | UndefinedRuleError string
  | UnknownGrammarError string
  | MalformedSourceError string
  | TypeError

subsection \<open>The Expression model, the Grammar and the Builder\<close>

text \<open>
  Modelled from the spec: the type of expressions that the factory methods of
  \<^verbatim>\<open>Builder.js\<close> return (section 3 of the specification, one constructor per
  variant).  \<^verbatim>\<open>builder.alt(x, y)\<close> is \<open>Alt x y\<close>, \<^verbatim>\<open>builder.seq(e1, ..., en)\<close> is
  \<open>Seq [e1, ..., en]\<close>, \<^verbatim>\<open>builder.bind(x, n)\<close> is \<open>Bind x n\<close>,
  \<^verbatim>\<open>builder.many(x, k)\<close> is \<open>Many x k\<close>, \<^verbatim>\<open>builder.opt\<close>, \<^verbatim>\<open>builder.not\<close>,
  \<^verbatim>\<open>builder.la\<close>, \<^verbatim>\<open>builder.str\<close>, \<^verbatim>\<open>builder.lst\<close> are \<open>Opt\<close>, \<open>NotP\<close> (the variant Not; the name \<open>Not\<close> is HOL's negation),
  \<open>Lookahead\<close>, \<open>Str\<close>, \<open>Lst\<close>, \<^verbatim>\<open>builder.obj(ps, lenient)\<close> is \<open>Obj ps lenient\<close>,
  \<^verbatim>\<open>builder.app(r)\<close> is \<open>App r\<close>, \<^verbatim>\<open>builder._(v)\<close> is \<open>Prim v\<close> and
  \<^verbatim>\<open>builder.inline(name, x)\<close> is \<open>Inline name x\<close>.
\<close>

datatype pexpr =
    Prim jsprim
  | App string
  | Alt pexpr pexpr
  | Seq "pexpr list"
  | Bind pexpr string
  | Many pexpr nat
  | Opt pexpr
  | NotP pexpr
  | Lookahead pexpr
  | Str pexpr
  | Lst pexpr
  | Obj "(string \<times> pexpr) list" bool
  | Inline string pexpr

text \<open>
  Modelled from the spec: the Grammar that \<^verbatim>\<open>Builder.js\<close> builds (the class is not
  in \<^verbatim>\<open>main.js\<close>) is a name, a mapping from rule names to rule bodies and an optional
  super-grammar.  It is a value: nothing updates it once built.
\<close>

datatype grammar =
  Grammar (gname: "string option") (grules: "string \<rightharpoonup> pexpr") (gsuper: "grammar option")

text \<open>
  Modelled from the spec: name-based resolution through a Grammar (it is the matcher's,
  which is not in \<^verbatim>\<open>main.js\<close>) looks a name up in the grammar's own rules first and
  then along the chain of super-grammars.
\<close>

fun lookupRule :: "grammar \<Rightarrow> string \<Rightarrow> pexpr option" where
  "lookupRule (Grammar n rs sg) r =
     (case rs r of
        Some e \<Rightarrow> Some e
      | None \<Rightarrow> (case sg of None \<Rightarrow> None | Some g \<Rightarrow> lookupRule g r))"

text \<open>
  Modelled from the spec: the Builder of \<^verbatim>\<open>Builder.js\<close>, with the four fields the
  specification gives it.  \<^verbatim>\<open>currentRuleName\<close> is the field that \<^verbatim>\<open>main.js\<close> itself
  writes in the rule actions and reads in \<^verbatim>\<open>'Term-inline'\<close>; it is \<^verbatim>\<open>undefined\<close>
  (\<open>None\<close>) on a new Builder.
\<close>

record builder =
  ruleSet :: "string \<rightharpoonup> pexpr"
  superGrammar :: "grammar option"
  grammarName :: "string option"
  currentRuleName :: "string option"

text \<open>
  Modelled from the spec: \<^verbatim>\<open>new Builder()\<close>, \<^verbatim>\<open>setName\<close> and
  \<^verbatim>\<open>setSuperGrammar\<close> of \<^verbatim>\<open>Builder.js\<close> "configure the grammar under construction".
\<close>

definition new_Builder :: builder where
  "new_Builder =
     \<lparr>ruleSet = Map.empty, superGrammar = None, grammarName = None, currentRuleName = None\<rparr>"

definition Builder_setName :: "string \<Rightarrow> builder \<Rightarrow> builder" where
  "Builder_setName n b = b\<lparr>grammarName := Some n\<rparr>"

definition Builder_setSuperGrammar :: "grammar \<Rightarrow> builder \<Rightarrow> builder" where
  "Builder_setSuperGrammar g b = b\<lparr>superGrammar := Some g\<rparr>"

text \<open>
  Modelled from the spec: the lookup of \<^verbatim>\<open>override\<close> and \<^verbatim>\<open>extend\<close>, "first
  locally, then walking the super-grammar chain".
\<close>

definition findRule :: "builder \<Rightarrow> string \<Rightarrow> pexpr option" where
  "findRule b name =
     (case ruleSet b name of
        Some e \<Rightarrow> Some e
      | None \<Rightarrow> (case superGrammar b of None \<Rightarrow> None | Some g \<Rightarrow> lookupRule g name))"

text \<open>
  Modelled from the spec: \<^verbatim>\<open>define\<close> "registers a new rule; fails with
  DuplicateRuleError if name already exists locally".
\<close>

definition Builder_define :: "string \<Rightarrow> pexpr \<Rightarrow> builder \<Rightarrow> error + builder" where
  "Builder_define name body b =
     (case ruleSet b name of
        Some e \<Rightarrow> Inl (DuplicateRuleError name)
      | None \<Rightarrow> Inr (b\<lparr>ruleSet := (ruleSet b)(name \<mapsto> body)\<rparr>))"

text \<open>
  Modelled from the spec: \<^verbatim>\<open>override\<close> "fails with UndefinedRuleError if not found
  anywhere; on success, installs body as the rule bound to name in this grammar".
\<close>

definition Builder_override :: "string \<Rightarrow> pexpr \<Rightarrow> builder \<Rightarrow> error + builder" where
  "Builder_override name body b =
     (case findRule b name of
        None \<Rightarrow> Inl (UndefinedRuleError name)
      | Some e \<Rightarrow> Inr (b\<lparr>ruleSet := (ruleSet b)(name \<mapsto> body)\<rparr>))"

text \<open>
  Modelled from the spec: \<^verbatim>\<open>extend\<close> has the "same lookup as override; on success,
  installs Alt(existingBody, body)".
\<close>

definition Builder_extend :: "string \<Rightarrow> pexpr \<Rightarrow> builder \<Rightarrow> error + builder" where
  "Builder_extend name body b =
     (case findRule b name of
        None \<Rightarrow> Inl (UndefinedRuleError name)
      | Some e \<Rightarrow> Inr (b\<lparr>ruleSet := (ruleSet b)(name \<mapsto> Alt e body)\<rparr>))"

subsection \<open>The parse tree of a grammar declaration\<close>

text \<open>
  The semantic actions run over the parse tree that \<^verbatim>\<open>_ohmGrammar.matchContents\<close>
  returns.  The tree type has one constructor per action of the dictionary that does
  some work, with one argument per field of \<^verbatim>\<open>env\<close> that the action reads.  The
  pass-through actions (\<^verbatim>\<open>Alt\<close>, \<^verbatim>\<open>Term\<close>, \<^verbatim>\<open>Factor\<close>, \<^verbatim>\<open>Iter\<close>, \<^verbatim>\<open>Pred\<close>,
  \<^verbatim>\<open>Base\<close>, \<^verbatim>\<open>Props\<close>, \<^verbatim>\<open>Rule\<close>, \<^verbatim>\<open>Grammars\<close>, \<^verbatim>\<open>name\<close>, \<^verbatim>\<open>namedConst\<close>) return
  \<^verbatim>\<open>env.value\<close> unchanged, so such a node is identified with its child.  A name is the
  text it spans (\<^verbatim>\<open>_name\<close> returns \<^verbatim>\<open>this.interval.contents\<close>).
\<close>

datatype expr_cst =
    AltRec expr_cst expr_cst
  | TermInline expr_cst string
  | SeqNode "expr_cst list"
  | FactorBind expr_cst string
  | IterStar expr_cst
  | IterPlus expr_cst
  | IterOpt expr_cst
  | PredNot expr_cst
  | PredLookahead expr_cst
  | BaseUndefined
  | BaseNull
  | BaseTrue
  | BaseFalse
  | BaseApplication string
  | BasePrim jsprim
  | BaseLst expr_cst
  | BaseStr expr_cst
  | BaseParen expr_cst
  | BaseObj bool
  | BaseObjWithProps props_cst bool
and props_cst =
    PropsBase prop_cst
  | PropsRec prop_cst props_cst
and prop_cst =
    Prop string expr_cst

datatype rule_cst =
    RuleDefine string expr_cst
  | RuleOverride string expr_cst
  | RuleExtend string expr_cst

datatype super_cst =
    SuperGrammarQualified string string
  | SuperGrammarUnqualified string

datatype grammar_cst =
  GrammarNode string "super_cst option" "rule_cst list"

datatype top_cst =
    GrammarTop grammar_cst
  | GrammarsTop "grammar_cst list"

subsection \<open>The expression actions\<close>

text \<open>
  JavaScript's \<^verbatim>\<open>builder.currentRuleName + '-' + env.n\<close>: an undefined field is
  printed as the text \<^verbatim>\<open>undefined\<close>.
\<close>

definition inlineRuleName :: "builder \<Rightarrow> string \<Rightarrow> string" where
  "inlineRuleName b n =
     (case currentRuleName b of None \<Rightarrow> ''undefined'' | Some r \<Rightarrow> r) @ ''-'' @ n"

text \<open>
  The actions \<^verbatim>\<open>'Alt-rec'\<close> to \<^verbatim>\<open>Prop\<close> of \<^verbatim>\<open>makeGrammarActionDict\<close>.  All of
  them only read the Builder.
\<close>

fun actExpr :: "builder \<Rightarrow> expr_cst \<Rightarrow> pexpr"
  and actProps :: "builder \<Rightarrow> props_cst \<Rightarrow> (string \<times> pexpr) list"
  and actProp :: "builder \<Rightarrow> prop_cst \<Rightarrow> string \<times> pexpr"
where
  "actExpr b (AltRec x y) = Alt (actExpr b x) (actExpr b y)"
| "actExpr b (TermInline x n) = Inline (inlineRuleName b n) (actExpr b x)"
| "actExpr b (SeqNode xs) = Seq (map (actExpr b) xs)"
| "actExpr b (FactorBind x n) = Bind (actExpr b x) n"
| "actExpr b (IterStar x) = Many (actExpr b x) 0"
| "actExpr b (IterPlus x) = Many (actExpr b x) 1"
| "actExpr b (IterOpt x) = Opt (actExpr b x)"
| "actExpr b (PredNot x) = NotP (actExpr b x)"
| "actExpr b (PredLookahead x) = Lookahead (actExpr b x)"
| "actExpr b BaseUndefined = Prim JUndefined"
| "actExpr b BaseNull = Prim JNull"
| "actExpr b BaseTrue = Prim (JBool True)"
| "actExpr b BaseFalse = Prim (JBool False)"
| "actExpr b (BaseApplication ruleName) = App ruleName"
| "actExpr b (BasePrim v) = Prim v"
| "actExpr b (BaseLst x) = Lst (actExpr b x)"
| "actExpr b (BaseStr x) = Str (actExpr b x)"
| "actExpr b (BaseParen x) = actExpr b x"
| "actExpr b (BaseObj lenient) = Obj [] lenient"
| "actExpr b (BaseObjWithProps ps lenient) = Obj (actProps b ps) lenient"
| "actProps b (PropsBase p) = [actProp b p]"
| "actProps b (PropsRec p ps) = [actProp b p] @ actProps b ps"
| "actProp b (Prop n p) = (n, actExpr b p)"

text \<open>
  The labels of the inline terms of a tree, in the order in which the actions run
  (\<^verbatim>\<open>env.n\<close> of each \<^verbatim>\<open>'Term-inline'\<close> node), and the names of the \<open>Inline\<close> nodes
  of an expression in the same order.
\<close>

fun inlineLabels :: "expr_cst \<Rightarrow> string list"
  and inlineLabelsProps :: "props_cst \<Rightarrow> string list"
  and inlineLabelsProp :: "prop_cst \<Rightarrow> string list"
where
  "inlineLabels (AltRec x y) = inlineLabels x @ inlineLabels y"
| "inlineLabels (TermInline x n) = n # inlineLabels x"
| "inlineLabels (SeqNode xs) = concat (map inlineLabels xs)"
| "inlineLabels (FactorBind x n) = inlineLabels x"
| "inlineLabels (IterStar x) = inlineLabels x"
| "inlineLabels (IterPlus x) = inlineLabels x"
| "inlineLabels (IterOpt x) = inlineLabels x"
| "inlineLabels (PredNot x) = inlineLabels x"
| "inlineLabels (PredLookahead x) = inlineLabels x"
| "inlineLabels BaseUndefined = []"
| "inlineLabels BaseNull = []"
| "inlineLabels BaseTrue = []"
| "inlineLabels BaseFalse = []"
| "inlineLabels (BaseApplication ruleName) = []"
| "inlineLabels (BasePrim v) = []"
| "inlineLabels (BaseLst x) = inlineLabels x"
| "inlineLabels (BaseStr x) = inlineLabels x"
| "inlineLabels (BaseParen x) = inlineLabels x"
| "inlineLabels (BaseObj lenient) = []"
| "inlineLabels (BaseObjWithProps ps lenient) = inlineLabelsProps ps"
| "inlineLabelsProps (PropsBase p) = inlineLabelsProp p"
| "inlineLabelsProps (PropsRec p ps) = inlineLabelsProp p @ inlineLabelsProps ps"
| "inlineLabelsProp (Prop n p) = inlineLabels p"

fun inlineNames :: "pexpr \<Rightarrow> string list" where
  "inlineNames (Prim v) = []"
| "inlineNames (App r) = []"
| "inlineNames (Alt x y) = inlineNames x @ inlineNames y"
| "inlineNames (Seq xs) = concat (map inlineNames xs)"
| "inlineNames (Bind x n) = inlineNames x"
| "inlineNames (Many x k) = inlineNames x"
| "inlineNames (Opt x) = inlineNames x"
| "inlineNames (NotP x) = inlineNames x"
| "inlineNames (Lookahead x) = inlineNames x"
| "inlineNames (Str x) = inlineNames x"
| "inlineNames (Lst x) = inlineNames x"
| "inlineNames (Obj ps lenient) = concat (map (\<lambda>p. inlineNames (snd p)) ps)"
| "inlineNames (Inline n x) = n # inlineNames x"

text \<open>
  An expression with the names of its \<open>Inline\<close> nodes blanked: all of it that is not a
  synthesized name.
\<close>

fun eraseInline :: "pexpr \<Rightarrow> pexpr" where
  "eraseInline (Prim v) = Prim v"
| "eraseInline (App r) = App r"
| "eraseInline (Alt x y) = Alt (eraseInline x) (eraseInline y)"
| "eraseInline (Seq xs) = Seq (map eraseInline xs)"
| "eraseInline (Bind x n) = Bind (eraseInline x) n"
| "eraseInline (Many x k) = Many (eraseInline x) k"
| "eraseInline (Opt x) = Opt (eraseInline x)"
| "eraseInline (NotP x) = NotP (eraseInline x)"
| "eraseInline (Lookahead x) = Lookahead (eraseInline x)"
| "eraseInline (Str x) = Str (eraseInline x)"
| "eraseInline (Lst x) = Lst (eraseInline x)"
| "eraseInline (Obj ps lenient) = Obj (map (\<lambda>p. (fst p, eraseInline (snd p))) ps) lenient"
| "eraseInline (Inline n x) = Inline [] (eraseInline x)"

text \<open>
  The form "enclosing rule's name, a dash, an ordinal": the text after the dash is a
  non-empty run of decimal digits.
\<close>

definition isOrdinal :: "string \<Rightarrow> bool" where
  "isOrdinal s = (s \<noteq> [] \<and> list_all (\<lambda>c. c \<in> set ''0123456789'') s)"

definition hasOrdinalForm :: "string \<Rightarrow> string \<Rightarrow> bool" where
  "hasOrdinalForm R s =
     (take (length R + 1) s = R @ ''-'' \<and> isOrdinal (drop (length R + 1) s))"

text \<open>
  Modelled from the spec: the order in which the matcher (which is not in
  \<^verbatim>\<open>main.js\<close>) tries the alternatives of an expression, by the contract of ordered
  choice ("Alt(x,y): try x; on failure at the same start position, try y").
\<close>

fun altOrder :: "pexpr \<Rightarrow> pexpr list" where
  "altOrder (Alt x y) = altOrder x @ altOrder y"
| "altOrder e = [e]"

subsection \<open>The rule actions\<close>

text \<open>
  \<^verbatim>\<open>'Rule-define'\<close>, \<^verbatim>\<open>'Rule-override'\<close> and \<^verbatim>\<open>'Rule-extend'\<close>: the assignment
  to \<^verbatim>\<open>builder.currentRuleName\<close> comes first; \<^verbatim>\<open>env.b\<close> is evaluated after it, when
  the arguments of the call are.
\<close>

fun actRule :: "rule_cst \<Rightarrow> builder \<Rightarrow> error + builder" where
  "actRule (RuleDefine n body) b =
     (let b' = b\<lparr>currentRuleName := Some n\<rparr> in Builder_define n (actExpr b' body) b')"
| "actRule (RuleOverride n body) b =
     (let b' = b\<lparr>currentRuleName := Some n\<rparr> in Builder_override n (actExpr b' body) b')"
| "actRule (RuleExtend n body) b =
     (let b' = b\<lparr>currentRuleName := Some n\<rparr> in Builder_extend n (actExpr b' body) b')"

text \<open>
  \<^verbatim>\<open>env.rs\<close> of the \<^verbatim>\<open>Grammar\<close> action: the rules in the order of the text; the
  first failure is the exception that ends the evaluation.
\<close>

fun actRules :: "rule_cst list \<Rightarrow> builder \<Rightarrow> error + builder" where
  "actRules [] b = Inr b"
| "actRules (r # rs) b =
     (case actRule r b of Inl e \<Rightarrow> Inl e | Inr b' \<Rightarrow> actRules rs b')"

subsection \<open>Namespaces\<close>

text \<open>
  Modelled from the spec: a Namespace of \<^verbatim>\<open>Namespace.js\<close> is a name and a mapping
  from names to Grammars; a new one holds no grammar; \<^verbatim>\<open>getGrammar(name)\<close> "returns
  the registered Grammar or fails with UnknownGrammarError".
\<close>

record namespace_obj =
  nsName :: string
  nsGrammars :: "string \<rightharpoonup> grammar"

definition new_Namespace :: "string \<Rightarrow> namespace_obj" where
  "new_Namespace name = \<lparr>nsName = name, nsGrammars = Map.empty\<rparr>"

definition Namespace_getGrammar :: "namespace_obj \<Rightarrow> string \<Rightarrow> error + grammar" where
  "Namespace_getGrammar ns name =
     (case nsGrammars ns name of
        None \<Rightarrow> Inl (UnknownGrammarError name)
      | Some g \<Rightarrow> Inr g)"

text \<open>
  The state outside the Builder: the module variable \<^verbatim>\<open>namespaces\<close> and the Namespace
  objects.  A Namespace is an object with an identity, so it lives in a heap and is
  referred to by its address; \<^verbatim>\<open>new Namespace(name)\<close> takes the next free address.
  \<open>namespaces w\<close> holds the own properties of the object \<^verbatim>\<open>namespaces\<close>.
\<close>

record world =
  namespaces :: "string \<rightharpoonup> nat"
  heap :: "namespace_obj list"

definition initial_world :: world where
  "initial_world = \<lparr>namespaces = Map.empty, heap = []\<rparr>"

text \<open>
  \<^verbatim>\<open>var namespaces = {}\<close> is an object literal, so its prototype is
  \<^verbatim>\<open>Object.prototype\<close> and a read \<^verbatim>\<open>namespaces[name]\<close> of a name that is not an own
  property is answered by the prototype.  These are the names \<^verbatim>\<open>Object.prototype\<close>
  answers (ECMAScript 5.1, 15.2.4 and Annex B of ECMAScript 2015, as V8 has them).
\<close>

definition Object_prototype_keys :: "string list" where
  "Object_prototype_keys =
     [''constructor'', ''toString'', ''toLocaleString'', ''valueOf'', ''hasOwnProperty'',
      ''isPrototypeOf'', ''propertyIsEnumerable'', ''__proto__'', ''__defineGetter__'',
      ''__defineSetter__'', ''__lookupGetter__'', ''__lookupSetter__'']"

text \<open>
  The values the loader handles where it expects a Namespace: \<^verbatim>\<open>undefined\<close>, a
  Namespace (by address), or a member inherited from \<^verbatim>\<open>Object.prototype\<close> (a function
  such as \<^verbatim>\<open>Object\<close> for \<^verbatim>\<open>constructor\<close>, or the prototype itself for
  \<^verbatim>\<open>__proto__\<close>).
\<close>

datatype jsval =
    Undefined
  | NamespaceObj nat
  | InheritedMember string

text \<open>The read \<^verbatim>\<open>namespaces[name]\<close>.\<close>

definition namespaces_get :: "world \<Rightarrow> string \<Rightarrow> jsval" where
  "namespaces_get w name =
     (case namespaces w name of
        Some r \<Rightarrow> NamespaceObj r
      | None \<Rightarrow>
          if name \<in> set Object_prototype_keys then InheritedMember name else Undefined)"

text \<open>
  \<^verbatim>\<open>exports.namespace\<close>.  The assignment is reached only when the read gave
  \<^verbatim>\<open>undefined\<close>, that is for a name the prototype does not answer, and then it adds
  an own property.
\<close>

definition namespace :: "string \<Rightarrow> world \<Rightarrow> jsval \<times> world" where
  "namespace name w =
     (let w' =
        (if namespaces_get w name = Undefined
         then w\<lparr>namespaces := (namespaces w)(name \<mapsto> length (heap w)),
                heap := heap w @ [new_Namespace name]\<rparr>
         else w)
      in (namespaces_get w' name, w'))"

text \<open>
  The method call \<^verbatim>\<open>v.getGrammar(n)\<close>.  On \<^verbatim>\<open>undefined\<close> the property read throws
  a TypeError; on a member of \<^verbatim>\<open>Object.prototype\<close> the property \<^verbatim>\<open>getGrammar\<close> is
  \<^verbatim>\<open>undefined\<close> and calling it throws a TypeError.
\<close>

definition call_getGrammar :: "world \<Rightarrow> jsval \<Rightarrow> string \<Rightarrow> error + grammar" where
  "call_getGrammar w v n =
     (case v of
        Undefined \<Rightarrow> Inl TypeError
      | NamespaceObj r \<Rightarrow> Namespace_getGrammar (heap w ! r) n
      | InheritedMember k \<Rightarrow> Inl TypeError)"

text \<open>
  The addresses in use are those below the length of the heap, and the registry gives
  every name an address of its own.  The loader keeps this invariant.
\<close>

definition wf_world :: "world \<Rightarrow> bool" where
  "wf_world w =
     ((\<forall>n r. namespaces w n = Some r \<longrightarrow> r < length (heap w))
      \<and> (\<forall>n m r. namespaces w n = Some r \<and> namespaces w m = Some r \<longrightarrow> n = m))"

subsection \<open>The grammar actions\<close>

text \<open>
  \<^verbatim>\<open>'SuperGrammar-qualified'\<close> is \<^verbatim>\<open>thisModule.namespace(env.ns).getGrammar(env.n)\<close>
  and \<^verbatim>\<open>'SuperGrammar-unqualified'\<close> is \<^verbatim>\<open>optNamespace.getGrammar(env.n)\<close>, where
  \<^verbatim>\<open>optNamespace\<close> is \<^verbatim>\<open>undefined\<close> when the caller left the argument out.
\<close>

fun actSuperGrammarRef ::
  "jsval \<Rightarrow> super_cst \<Rightarrow> world \<Rightarrow> (error + grammar) \<times> world" where
  "actSuperGrammarRef optNamespace (SuperGrammarQualified ns n) w =
     (case namespace ns w of (v, w') \<Rightarrow> (call_getGrammar w' v n, w'))"
| "actSuperGrammarRef optNamespace (SuperGrammarUnqualified n) w =
     (call_getGrammar w optNamespace n, w)"

text \<open>
  \<^verbatim>\<open>SuperGrammar\<close> is \<^verbatim>\<open>builder.setSuperGrammar(env.value)\<close>; a declaration without
  a super-grammar has no such node, and \<^verbatim>\<open>env.s\<close> runs no action.
\<close>

fun actSuperGrammar ::
  "jsval \<Rightarrow> super_cst option \<Rightarrow> builder \<Rightarrow> world \<Rightarrow> (error + builder) \<times> world" where
  "actSuperGrammar optNamespace None b w = (Inr b, w)"
| "actSuperGrammar optNamespace (Some s) b w =
     (case actSuperGrammarRef optNamespace s w of
        (Inl e, w') \<Rightarrow> (Inl e, w')
      | (Inr g, w') \<Rightarrow> (Inr (Builder_setSuperGrammar g b), w'))"

text \<open>
  Modelled from the spec: \<^verbatim>\<open>build(namespace)\<close> "finalizes into an immutable Grammar
  (name, resolved superGrammar, accumulated rule set); registration into namespace (if
  provided) is a decision made by the caller/Namespace, not an implicit Builder side
  effect".
\<close>

definition Builder_build :: "builder \<Rightarrow> jsval \<Rightarrow> world \<Rightarrow> grammar \<times> world" where
  "Builder_build b optNamespace w =
     (Grammar (grammarName b) (ruleSet b) (superGrammar b), w)"

text \<open>
  The \<^verbatim>\<open>Grammar\<close> action: a new Builder, its name, then \<^verbatim>\<open>env.s\<close>, then
  \<^verbatim>\<open>env.rs\<close>, then \<^verbatim>\<open>builder.build(optNamespace)\<close>.  An exception leaves the
  action at once; what \<^verbatim>\<open>namespace\<close> has stored by then stays stored.
\<close>

fun actGrammar :: "jsval \<Rightarrow> grammar_cst \<Rightarrow> world \<Rightarrow> (error + grammar) \<times> world" where
  "actGrammar optNamespace (GrammarNode n s rs) w =
     (case actSuperGrammar optNamespace s (Builder_setName n new_Builder) w of
        (Inl e, w1) \<Rightarrow> (Inl e, w1)
      | (Inr b1, w1) \<Rightarrow>
          (case actRules rs b1 of
             Inl e \<Rightarrow> (Inl e, w1)
           | Inr b2 \<Rightarrow>
               (case Builder_build b2 optNamespace w1 of (g, w2) \<Rightarrow> (Inr g, w2))))"

text \<open>\<^verbatim>\<open>Grammars\<close>: the declarations of a batch, in the order of the text.\<close>

fun actGrammars ::
  "jsval \<Rightarrow> grammar_cst list \<Rightarrow> world \<Rightarrow> (error + grammar list) \<times> world" where
  "actGrammars optNamespace [] w = (Inr [], w)"
| "actGrammars optNamespace (c # cs) w =
     (case actGrammar optNamespace c w of
        (Inl e, w1) \<Rightarrow> (Inl e, w1)
      | (Inr g, w1) \<Rightarrow>
          (case actGrammars optNamespace cs w1 of
             (Inl e, w2) \<Rightarrow> (Inl e, w2)
           | (Inr gs, w2) \<Rightarrow> (Inr (g # gs), w2)))"

subsection \<open>The entry points\<close>

datatype loaded =
    LoadedGrammar grammar
  | LoadedGrammars "grammar list"

text \<open>
  \<^verbatim>\<open>thunk(makeGrammarActionDict(optNamespace))\<close>: the actions run over the tree that
  the match returned.
\<close>

fun makeGrammarActionDict :: "jsval \<Rightarrow> top_cst \<Rightarrow> world \<Rightarrow> (error + loaded) \<times> world" where
  "makeGrammarActionDict optNamespace (GrammarTop c) w =
     (case actGrammar optNamespace c w of
        (Inl e, w') \<Rightarrow> (Inl e, w')
      | (Inr g, w') \<Rightarrow> (Inr (LoadedGrammar g), w'))"
| "makeGrammarActionDict optNamespace (GrammarsTop cs) w =
     (case actGrammars optNamespace cs w of
        (Inl e, w') \<Rightarrow> (Inl e, w')
      | (Inr gs, w') \<Rightarrow> (Inr (LoadedGrammars gs), w'))"

text \<open>
  \<^verbatim>\<open>compileAndLoad\<close>.  The parser \<^verbatim>\<open>_ohmGrammar.matchContents\<close> is the bootstrapped
  grammar of ohm, built from \<^verbatim>\<open>dist/ohm-grammar.js\<close>; it is a parameter here, and
  answers \<open>None\<close> where the JavaScript answers a false value: the text is not a
  declaration of the kind asked for.  That branch reports through \<^verbatim>\<open>browser.error\<close>
  and returns no grammar.
\<close>

definition compileAndLoad ::
  "(string \<Rightarrow> string \<Rightarrow> top_cst option) \<Rightarrow> string \<Rightarrow> string \<Rightarrow> jsval \<Rightarrow> world
     \<Rightarrow> (error + loaded) \<times> world" where
  "compileAndLoad matchContents source whatItIs optNamespace w =
     (case matchContents source whatItIs of
        Some thunk \<Rightarrow> makeGrammarActionDict optNamespace thunk w
      | None \<Rightarrow> (Inl (MalformedSourceError source), w))"

definition makeGrammar ::
  "(string \<Rightarrow> string \<Rightarrow> top_cst option) \<Rightarrow> string \<Rightarrow> jsval \<Rightarrow> world
     \<Rightarrow> (error + loaded) \<times> world" where
  "makeGrammar matchContents source optNamespace w =
     compileAndLoad matchContents source ''Grammar'' optNamespace w"

definition makeGrammars ::
  "(string \<Rightarrow> string \<Rightarrow> top_cst option) \<Rightarrow> string \<Rightarrow> jsval \<Rightarrow> world
     \<Rightarrow> (error + loaded) \<times> world" where
  "makeGrammars matchContents source optNamespace w =
     compileAndLoad matchContents source ''Grammars'' optNamespace w"

text \<open>
  The super-grammar chain of a Builder or Grammar, nearest first, and the declarations
  that refer to their super-grammar without a namespace.
\<close>

fun chainFrom :: "grammar \<Rightarrow> grammar list" where
  "chainFrom (Grammar n rs sg) =
     Grammar n rs sg # (case sg of None \<Rightarrow> [] | Some g \<Rightarrow> chainFrom g)"

definition superChain :: "builder \<Rightarrow> grammar list" where
  "superChain b = (case superGrammar b of None \<Rightarrow> [] | Some g \<Rightarrow> chainFrom g)"

fun hasUnqualifiedSuper :: "grammar_cst \<Rightarrow> bool" where
  "hasUnqualifiedSuper (GrammarNode n (Some (SuperGrammarUnqualified g)) rs) = True"
| "hasUnqualifiedSuper (GrammarNode n s rs) = False"

subsection \<open>Example declarations\<close>

text \<open>
  The end-to-end example of the specification: a super-grammar that defines
  \<^verbatim>\<open>Bar = 'y'\<close>, and a Builder for a child grammar of it.
\<close>

definition baseGrammar :: grammar where
  "baseGrammar = Grammar (Some ''Base'') [''Bar'' \<mapsto> Prim (JString ''y'')] None"

definition childBuilder :: builder where
  "childBuilder = Builder_setSuperGrammar baseGrammar (Builder_setName ''Child'' new_Builder)"

text \<open>
  The example of the design notes at the head of \<^verbatim>\<open>main.js\<close>:
  \<^verbatim>\<open>addExpr:x '+' mulExpr:y {plus} | addExpr:x '-' mulExpr:y {minus} | mulExpr\<close>.
\<close>

definition addExprBody :: expr_cst where
  "addExprBody =
     AltRec
       (TermInline
          (SeqNode [FactorBind (BaseApplication ''addExpr'') ''x'', BasePrim (JString ''+''),
                    FactorBind (BaseApplication ''mulExpr'') ''y''])
          ''plus'')
       (AltRec
          (TermInline
             (SeqNode [FactorBind (BaseApplication ''addExpr'') ''x'', BasePrim (JString ''-''),
                       FactorBind (BaseApplication ''mulExpr'') ''y''])
             ''minus'')
          (SeqNode [BaseApplication ''mulExpr'']))"

text \<open>The same body with the label \<^verbatim>\<open>plus\<close> written on both inline terms.\<close>

definition twicePlusBody :: expr_cst where
  "twicePlusBody =
     AltRec
       (TermInline (SeqNode [BaseApplication ''a'']) ''plus'')
       (TermInline (SeqNode [BaseApplication ''b'']) ''plus'')"

text \<open>
  A world in which the namespace \<^verbatim>\<open>ns\<close> exists and holds the grammar \<^verbatim>\<open>Base\<close>.
\<close>

definition exampleWorld :: world where
  "exampleWorld =
     \<lparr>namespaces = [''ns'' \<mapsto> 0],
      heap = [\<lparr>nsName = ''ns'', nsGrammars = [''Base'' \<mapsto> baseGrammar]\<rparr>]\<rparr>"

text \<open>
  A stand-in for the parser that knows four texts: a grammar without a super-grammar,
  one with a qualified and one with an unqualified super-grammar, and a batch.
\<close>

definition plainDecl :: grammar_cst where
  "plainDecl = GrammarNode ''G'' None [RuleDefine ''A'' (SeqNode [BasePrim (JString ''a'')])]"

definition qualifiedDecl :: grammar_cst where
  "qualifiedDecl =
     GrammarNode ''Q'' (Some (SuperGrammarQualified ''ns'' ''Base''))
       [RuleOverride ''Bar'' (SeqNode [BasePrim (JString ''x'')])]"

definition unqualifiedDecl :: grammar_cst where
  "unqualifiedDecl =
     GrammarNode ''U'' (Some (SuperGrammarUnqualified ''Base''))
       [RuleOverride ''Bar'' (SeqNode [BasePrim (JString ''x'')])]"

definition exampleParser :: "string \<Rightarrow> string \<Rightarrow> top_cst option" where
  "exampleParser source whatItIs =
     (if whatItIs = ''Grammar'' \<and> source = ''plain'' then Some (GrammarTop plainDecl)
      else if whatItIs = ''Grammar'' \<and> source = ''qualified'' then Some (GrammarTop qualifiedDecl)
      else if whatItIs = ''Grammar'' \<and> source = ''unqualified''
        then Some (GrammarTop unqualifiedDecl)
      else if whatItIs = ''Grammars'' \<and> source = ''plain qualified''
        then Some (GrammarsTop [plainDecl, qualifiedDecl])
      else if whatItIs = ''Grammars'' \<and> source = ''plain unqualified''
        then Some (GrammarsTop [plainDecl, unqualifiedDecl])
      else None)"

section \<open>Facts about the model\<close>

subsection \<open>Expressions and rules\<close>

lemma actExpr_depends_on_currentRuleName:
  "currentRuleName b = currentRuleName b' \<Longrightarrow> actExpr b c = actExpr b' c"
  "currentRuleName b = currentRuleName b' \<Longrightarrow> actProps b ps = actProps b' ps"
  "currentRuleName b = currentRuleName b' \<Longrightarrow> actProp b p = actProp b' p"
  by (induction c and ps and p) (simp_all add: inlineRuleName_def)

lemma actExpr_without_inline:
  "inlineLabels c = [] \<Longrightarrow> actExpr b c = actExpr b' c"
  "inlineLabelsProps ps = [] \<Longrightarrow> actProps b ps = actProps b' ps"
  "inlineLabelsProp p = [] \<Longrightarrow> actProp b p = actProp b' p"
  by (induction c and ps and p) simp_all

lemma inlineNames_actExpr:
  "inlineNames (actExpr b c) = map (inlineRuleName b) (inlineLabels c)"
  "concat (map (\<lambda>q. inlineNames (snd q)) (actProps b ps))
     = map (inlineRuleName b) (inlineLabelsProps ps)"
  "inlineNames (snd (actProp b p)) = map (inlineRuleName b) (inlineLabelsProp p)"
proof (induction c and ps and p)
  case (SeqNode xs)
  then show ?case by (induction xs) simp_all
qed simp_all

lemma inj_inlineRuleName: "inj (inlineRuleName b)"
  by (simp add: inj_def inlineRuleName_def)

lemma distinct_inlineNames:
  "distinct (inlineNames (actExpr b c)) = distinct (inlineLabels c)"
  by (simp add: inlineNames_actExpr distinct_map inj_on_subset[OF inj_inlineRuleName])

lemma eraseInline_actExpr:
  "eraseInline (actExpr b c) = eraseInline (actExpr b' c)"
  "map (\<lambda>q. (fst q, eraseInline (snd q))) (actProps b ps)
     = map (\<lambda>q. (fst q, eraseInline (snd q))) (actProps b' ps)"
  "(fst (actProp b p), eraseInline (snd (actProp b p)))
     = (fst (actProp b' p), eraseInline (snd (actProp b' p)))"
proof (induction c and ps and p)
  case (SeqNode xs)
  then show ?case by (induction xs) simp_all
qed simp_all

lemma Builder_ops_ignore_currentRuleName:
  "findRule (b\<lparr>currentRuleName := x\<rparr>) n = findRule b n"
  "Builder_define n e (b\<lparr>currentRuleName := x\<rparr>)
     = map_sum id (\<lambda>d. d\<lparr>currentRuleName := x\<rparr>) (Builder_define n e b)"
  "Builder_override n e (b\<lparr>currentRuleName := x\<rparr>)
     = map_sum id (\<lambda>d. d\<lparr>currentRuleName := x\<rparr>) (Builder_override n e b)"
  "Builder_extend n e (b\<lparr>currentRuleName := x\<rparr>)
     = map_sum id (\<lambda>d. d\<lparr>currentRuleName := x\<rparr>) (Builder_extend n e b)"
  "Builder_build (b\<lparr>currentRuleName := x\<rparr>) ns w = Builder_build b ns w"
  by (simp_all add: findRule_def Builder_define_def Builder_override_def Builder_extend_def
        Builder_build_def split: option.splits)

lemma actRules_ruleSet_ignores_stale_name:
  "map_sum id ruleSet (actRules rs (b\<lparr>currentRuleName := x\<rparr>))
     = map_sum id ruleSet (actRules rs b)"
proof (cases rs)
  case Nil
  then show ?thesis by simp
next
  case (Cons r rest)
  have "actRule r (b\<lparr>currentRuleName := x\<rparr>) = actRule r b" by (cases r) simp_all
  with Cons show ?thesis by simp
qed

lemma Alt_neq_left: "Alt x y \<noteq> x"
proof
  assume "Alt x y = x"
  then have "size (Alt x y) = size x" by simp
  then show False by simp
qed

lemma lookupRule_chain:
  "lookupRule g r = None \<longleftrightarrow> (\<forall>h \<in> set (chainFrom g). grules h r = None)"
proof (induction g r rule: lookupRule.induct)
  case (1 n rs sg r)
  then show ?case by (cases sg) (auto split: option.splits)
qed

lemma findRule_None_iff:
  "findRule b name = None \<longleftrightarrow>
     ruleSet b name = None \<and> (\<forall>g \<in> set (superChain b). grules g name = None)"
  by (auto simp: findRule_def superChain_def lookupRule_chain split: option.splits)

lemma actRule_keeps_fields:
  "actRule r b = Inr b' \<Longrightarrow>
   grammarName b' = grammarName b \<and> superGrammar b' = superGrammar b"
  by (cases r)
     (auto simp: Builder_define_def Builder_override_def Builder_extend_def Let_def
           split: option.splits)

lemma actRules_keeps_fields:
  "actRules rs b = Inr b' \<Longrightarrow>
   grammarName b' = grammarName b \<and> superGrammar b' = superGrammar b"
proof (induction rs arbitrary: b)
  case Nil
  then show ?case by simp
next
  case (Cons r rs)
  then obtain b1 where r: "actRule r b = Inr b1" and rs: "actRules rs b1 = Inr b'"
    by (auto split: sum.splits)
  from Cons.IH[OF rs] actRule_keeps_fields[OF r] show ?case by simp
qed

lemma actRules_abort:
  "actRules rs1 b = Inr b1 \<Longrightarrow> actRule r b1 = Inl err \<Longrightarrow>
   actRules (rs1 @ r # rs2) b = Inl err"
  by (induction rs1 arbitrary: b) (auto split: sum.splits)

section \<open>The translation of the textual surface\<close>

text \<open>
  C8. The loader maps, for every sub-expression \<open>x\<close>: postfix \<^verbatim>\<open>*\<close> to \<open>Many e 0\<close>,
  postfix \<^verbatim>\<open>+\<close> to \<open>Many e 1\<close>, postfix \<^verbatim>\<open>?\<close> to \<open>Opt e\<close>, the negation marker to
  \<open>NotP e\<close>, the lookahead marker to \<open>Lookahead e\<close>, a bare identifier \<open>r\<close> to \<open>App r\<close>
  and a trailing \<^verbatim>\<open>:name\<close> to \<open>Bind e name\<close>, where \<open>e\<close> is the translation of \<open>x\<close>.
\<close>

theorem surface_translation:
  "actExpr b (IterStar x) = Many (actExpr b x) 0
   \<and> actExpr b (IterPlus x) = Many (actExpr b x) 1
   \<and> actExpr b (IterOpt x) = Opt (actExpr b x)
   \<and> actExpr b (PredNot x) = NotP (actExpr b x)
   \<and> actExpr b (PredLookahead x) = Lookahead (actExpr b x)
   \<and> actExpr b (BaseApplication r) = App r
   \<and> actExpr b (FactorBind x name) = Bind (actExpr b x) name"
  by simp

theorem surface_translation_witness:
  "actExpr new_Builder
     (SeqNode [PredNot (IterStar (BaseApplication ''x'')),
               FactorBind (IterPlus (BaseApplication ''y'')) ''n'',
               PredLookahead (IterOpt (BaseApplication ''z''))])
     = Seq [NotP (Many (App ''x'') 0), Bind (Many (App ''y'') 1) ''n'',
            Lookahead (Opt (App ''z''))]"
  using surface_translation[where b = new_Builder and x = "BaseApplication ''x''"]
  by simp

section \<open>Composition of rules\<close>

text \<open>
  C1. On a Builder whose lookup (own rules, then the super-grammar chain) binds \<open>R\<close> to
  \<open>B\<close>, \<^verbatim>\<open>extend(R, bodyA)\<close> followed by \<^verbatim>\<open>extend(R, bodyB)\<close> binds \<open>R\<close> to the
  left-nested \<open>Alt (Alt B bodyA) bodyB\<close>, whose alternatives are tried in the order of
  \<open>B\<close>, then \<open>bodyA\<close>, then \<open>bodyB\<close>; extending twice by the same body is not the same
  as extending once; and two \<^verbatim>\<open>'Rule-extend'\<close> declarations of the loader give that
  nesting of the bodies they compile.
\<close>

theorem extend_twice_left_nested:
  assumes "findRule b R = Some B"
  shows "(case Builder_extend R bodyA b of Inl e \<Rightarrow> Inl e | Inr b' \<Rightarrow> Builder_extend R bodyB b')
           = Inr (b\<lparr>ruleSet := (ruleSet b)(R \<mapsto> Alt (Alt B bodyA) bodyB)\<rparr>)
       \<and> altOrder (Alt (Alt B bodyA) bodyB) = altOrder B @ altOrder bodyA @ altOrder bodyB
       \<and> (case Builder_extend R bodyA b of Inl e \<Rightarrow> Inl e | Inr b' \<Rightarrow> Builder_extend R bodyA b')
           \<noteq> Builder_extend R bodyA b
       \<and> (\<exists>b'. actRules [RuleExtend R treeA, RuleExtend R treeB] b = Inr b'
             \<and> ruleSet b' R =
                 Some (Alt (Alt B (actExpr (b\<lparr>currentRuleName := Some R\<rparr>) treeA))
                           (actExpr (b\<lparr>currentRuleName := Some R\<rparr>) treeB)))"
proof -
  have once: "\<And>x. Builder_extend R x b = Inr (b\<lparr>ruleSet := (ruleSet b)(R \<mapsto> Alt B x)\<rparr>)"
    using assms by (simp add: Builder_extend_def)
  have again: "\<And>x y. Builder_extend R y (b\<lparr>ruleSet := (ruleSet b)(R \<mapsto> Alt B x)\<rparr>)
                  = Inr (b\<lparr>ruleSet := (ruleSet b)(R \<mapsto> Alt (Alt B x) y)\<rparr>)"
    by (simp add: Builder_extend_def findRule_def)
  have twice: "(case Builder_extend R bodyA b of Inl e \<Rightarrow> Inl e | Inr b' \<Rightarrow> Builder_extend R bodyB b')
                 = Inr (b\<lparr>ruleSet := (ruleSet b)(R \<mapsto> Alt (Alt B bodyA) bodyB)\<rparr>)"
    by (simp add: once again)
  have order: "altOrder (Alt (Alt B bodyA) bodyB) = altOrder B @ altOrder bodyA @ altOrder bodyB"
    by simp
  have differ: "(case Builder_extend R bodyA b of Inl e \<Rightarrow> Inl e | Inr b' \<Rightarrow> Builder_extend R bodyA b')
                  \<noteq> Builder_extend R bodyA b"
  proof
    assume "(case Builder_extend R bodyA b of Inl e \<Rightarrow> Inl e | Inr b' \<Rightarrow> Builder_extend R bodyA b')
              = Builder_extend R bodyA b"
    then have "b\<lparr>ruleSet := (ruleSet b)(R \<mapsto> Alt (Alt B bodyA) bodyA)\<rparr>
                 = b\<lparr>ruleSet := (ruleSet b)(R \<mapsto> Alt B bodyA)\<rparr>"
      by (simp add: once again)
    then have "ruleSet (b\<lparr>ruleSet := (ruleSet b)(R \<mapsto> Alt (Alt B bodyA) bodyA)\<rparr>) R
                 = ruleSet (b\<lparr>ruleSet := (ruleSet b)(R \<mapsto> Alt B bodyA)\<rparr>) R"
      by (rule arg_cong)
    then have "Alt (Alt B bodyA) bodyA = Alt B bodyA" by simp
    then show False by (simp add: Alt_neq_left)
  qed
  let ?b = "b\<lparr>currentRuleName := Some R\<rparr>"
  have f: "findRule ?b R = Some B" using assms by (simp add: findRule_def split: option.splits)
  have e2: "\<And>rs. actExpr (b\<lparr>ruleSet := rs, currentRuleName := Some R\<rparr>) treeB = actExpr ?b treeB"
    by (rule actExpr_depends_on_currentRuleName) simp
  have loader: "\<exists>b'. actRules [RuleExtend R treeA, RuleExtend R treeB] b = Inr b'
             \<and> ruleSet b' R =
                 Some (Alt (Alt B (actExpr ?b treeA)) (actExpr ?b treeB))"
    using f e2 by (simp add: Builder_extend_def findRule_def Let_def)
  from twice order differ loader show ?thesis by blast
qed

theorem extend_twice_left_nested_witness:
  "findRule childBuilder ''Bar'' = Some (Prim (JString ''y''))
   \<and> (case Builder_extend ''Bar'' (Prim (JString ''x'')) childBuilder of
         Inl e \<Rightarrow> Inl e
       | Inr b' \<Rightarrow> Builder_extend ''Bar'' (App ''z'') b')
       = Inr (childBuilder\<lparr>ruleSet := (ruleSet childBuilder)
                (''Bar'' \<mapsto> Alt (Alt (Prim (JString ''y'')) (Prim (JString ''x''))) (App ''z''))\<rparr>)
   \<and> altOrder (Alt (Alt (Prim (JString ''y'')) (Prim (JString ''x''))) (App ''z''))
       = [Prim (JString ''y''), Prim (JString ''x''), App ''z'']"
proof -
  have h: "findRule childBuilder ''Bar'' = Some (Prim (JString ''y''))"
    by (simp add: findRule_def childBuilder_def baseGrammar_def Builder_setSuperGrammar_def
          Builder_setName_def new_Builder_def)
  from extend_twice_left_nested[OF h, where bodyA = "Prim (JString ''x'')" and bodyB = "App ''z''"] h
  show ?thesis by simp
qed

text \<open>
  C2. On a Builder whose lookup binds \<open>R\<close>, \<^verbatim>\<open>override(R, bodyA)\<close> followed by
  \<^verbatim>\<open>override(R, bodyB)\<close> gives exactly the Builder that \<^verbatim>\<open>override(R, bodyB)\<close>
  alone gives, with \<open>R\<close> bound to \<open>bodyB\<close>; resolving \<open>R\<close> by name through the built
  grammar yields \<open>bodyB\<close>; the super-grammar of the built grammar is the one the Builder
  had, and resolving \<open>R\<close> through it still yields the ancestor's body; and two
  \<^verbatim>\<open>'Rule-override'\<close> declarations of the loader leave the body of the second.
\<close>

theorem override_twice_last_wins:
  assumes "findRule b R = Some B"
  shows "(case Builder_override R bodyA b of
            Inl e \<Rightarrow> Inl e
          | Inr b' \<Rightarrow> Builder_override R bodyB b') = Builder_override R bodyB b
       \<and> Builder_override R bodyB b = Inr (b\<lparr>ruleSet := (ruleSet b)(R \<mapsto> bodyB)\<rparr>)
       \<and> lookupRule (fst (Builder_build (b\<lparr>ruleSet := (ruleSet b)(R \<mapsto> bodyB)\<rparr>) ns w)) R
           = Some bodyB
       \<and> gsuper (fst (Builder_build (b\<lparr>ruleSet := (ruleSet b)(R \<mapsto> bodyB)\<rparr>) ns w))
           = superGrammar b
       \<and> (ruleSet b R = None \<longrightarrow>
            (case gsuper (fst (Builder_build (b\<lparr>ruleSet := (ruleSet b)(R \<mapsto> bodyB)\<rparr>) ns w)) of
               None \<Rightarrow> None
             | Some g \<Rightarrow> lookupRule g R) = Some B)
       \<and> (\<exists>b'. actRules [RuleOverride R treeA, RuleOverride R treeB] b = Inr b'
             \<and> ruleSet b' R = Some (actExpr (b\<lparr>currentRuleName := Some R\<rparr>) treeB))"
proof -
  have once: "\<And>x. Builder_override R x b = Inr (b\<lparr>ruleSet := (ruleSet b)(R \<mapsto> x)\<rparr>)"
    using assms by (simp add: Builder_override_def)
  have again: "\<And>x y. Builder_override R y (b\<lparr>ruleSet := (ruleSet b)(R \<mapsto> x)\<rparr>)
                  = Inr (b\<lparr>ruleSet := (ruleSet b)(R \<mapsto> y)\<rparr>)"
    by (simp add: Builder_override_def findRule_def)
  have twice: "(case Builder_override R bodyA b of
                  Inl e \<Rightarrow> Inl e
                | Inr b' \<Rightarrow> Builder_override R bodyB b') = Builder_override R bodyB b"
    by (simp add: once again)
  have shadow:
    "lookupRule (fst (Builder_build (b\<lparr>ruleSet := (ruleSet b)(R \<mapsto> bodyB)\<rparr>) ns w)) R
       = Some bodyB"
    by (simp add: Builder_build_def)
  have super:
    "gsuper (fst (Builder_build (b\<lparr>ruleSet := (ruleSet b)(R \<mapsto> bodyB)\<rparr>) ns w))
       = superGrammar b"
    by (simp add: Builder_build_def)
  have ancestor: "ruleSet b R = None \<longrightarrow>
      (case gsuper (fst (Builder_build (b\<lparr>ruleSet := (ruleSet b)(R \<mapsto> bodyB)\<rparr>) ns w)) of
         None \<Rightarrow> None
       | Some g \<Rightarrow> lookupRule g R) = Some B"
    using assms by (auto simp: super findRule_def)
  let ?b = "b\<lparr>currentRuleName := Some R\<rparr>"
  have f: "findRule ?b R = Some B"
    using assms by (simp add: findRule_def split: option.splits)
  have e2: "\<And>rs. actExpr (b\<lparr>ruleSet := rs, currentRuleName := Some R\<rparr>) treeB = actExpr ?b treeB"
    by (rule actExpr_depends_on_currentRuleName) simp
  have loader: "\<exists>b'. actRules [RuleOverride R treeA, RuleOverride R treeB] b = Inr b'
             \<and> ruleSet b' R = Some (actExpr ?b treeB)"
    using f e2 by (simp add: Builder_override_def findRule_def Let_def)
  from twice once[of bodyB] shadow super ancestor loader show ?thesis by blast
qed

theorem override_twice_last_wins_witness:
  "findRule childBuilder ''Bar'' = Some (Prim (JString ''y''))
   \<and> ruleSet childBuilder ''Bar'' = None
   \<and> (case Builder_override ''Bar'' (Prim (JString ''w'')) childBuilder of
         Inl e \<Rightarrow> Inl e
       | Inr b' \<Rightarrow> Builder_override ''Bar'' (Prim (JString ''x'')) b')
       = Inr (childBuilder\<lparr>ruleSet := (ruleSet childBuilder)(''Bar'' \<mapsto> Prim (JString ''x''))\<rparr>)
   \<and> lookupRule
        (fst (Builder_build
               (childBuilder\<lparr>ruleSet := (ruleSet childBuilder)(''Bar'' \<mapsto> Prim (JString ''x''))\<rparr>)
               Undefined initial_world)) ''Bar''
       = Some (Prim (JString ''x''))
   \<and> lookupRule baseGrammar ''Bar'' = Some (Prim (JString ''y''))"
proof -
  have h: "findRule childBuilder ''Bar'' = Some (Prim (JString ''y''))"
    by (simp add: findRule_def childBuilder_def baseGrammar_def Builder_setSuperGrammar_def
          Builder_setName_def new_Builder_def)
  have l: "ruleSet childBuilder ''Bar'' = None"
    by (simp add: childBuilder_def Builder_setSuperGrammar_def Builder_setName_def
          new_Builder_def)
  have a: "lookupRule baseGrammar ''Bar'' = Some (Prim (JString ''y''))"
    by (simp add: baseGrammar_def)
  from override_twice_last_wins[OF h, where bodyA = "Prim (JString ''w'')"
      and bodyB = "Prim (JString ''x'')" and ns = Undefined and w = initial_world] h l a
  show ?thesis by simp
qed

text \<open>
  C3. \<^verbatim>\<open>define\<close> fails exactly when the name is in the local rule set, and then with
  DuplicateRuleError; \<^verbatim>\<open>override\<close> and \<^verbatim>\<open>extend\<close> fail exactly when the name is
  absent from the local rule set and from every grammar of the super-grammar chain, and
  then with UndefinedRuleError; and when a rule action fails, the \<^verbatim>\<open>Grammar\<close> action
  ends with that error and returns no grammar.
\<close>

theorem rule_operation_failures:
  "(isl (Builder_define n e b) \<longleftrightarrow> n \<in> dom (ruleSet b))
   \<and> (isl (Builder_define n e b) \<longrightarrow> Builder_define n e b = Inl (DuplicateRuleError n))
   \<and> (isl (Builder_override n e b) \<longleftrightarrow>
        ruleSet b n = None \<and> (\<forall>g \<in> set (superChain b). grules g n = None))
   \<and> (isl (Builder_override n e b) \<longrightarrow> Builder_override n e b = Inl (UndefinedRuleError n))
   \<and> (isl (Builder_extend n e b) \<longleftrightarrow>
        ruleSet b n = None \<and> (\<forall>g \<in> set (superChain b). grules g n = None))
   \<and> (isl (Builder_extend n e b) \<longrightarrow> Builder_extend n e b = Inl (UndefinedRuleError n))
   \<and> (actSuperGrammar optNamespace s (Builder_setName gn new_Builder) w = (Inr b1, w1)
        \<and> actRules rs1 b1 = Inr b2 \<and> actRule r b2 = Inl err \<longrightarrow>
        actGrammar optNamespace (GrammarNode gn s (rs1 @ r # rs2)) w = (Inl err, w1))"
proof -
  have d: "(isl (Builder_define n e b) \<longleftrightarrow> n \<in> dom (ruleSet b))
       \<and> (isl (Builder_define n e b) \<longrightarrow> Builder_define n e b = Inl (DuplicateRuleError n))"
    by (auto simp: Builder_define_def split: option.splits)
  have o: "(isl (Builder_override n e b) \<longleftrightarrow> findRule b n = None)
       \<and> (isl (Builder_override n e b) \<longrightarrow> Builder_override n e b = Inl (UndefinedRuleError n))"
    by (auto simp: Builder_override_def split: option.splits)
  have x: "(isl (Builder_extend n e b) \<longleftrightarrow> findRule b n = None)
       \<and> (isl (Builder_extend n e b) \<longrightarrow> Builder_extend n e b = Inl (UndefinedRuleError n))"
    by (auto simp: Builder_extend_def split: option.splits)
  have a: "actSuperGrammar optNamespace s (Builder_setName gn new_Builder) w = (Inr b1, w1)
        \<and> actRules rs1 b1 = Inr b2 \<and> actRule r b2 = Inl err \<longrightarrow>
        actGrammar optNamespace (GrammarNode gn s (rs1 @ r # rs2)) w = (Inl err, w1)"
    by (auto simp: actRules_abort)
  from d o x a show ?thesis unfolding findRule_None_iff by blast
qed

theorem rule_operation_failures_witness:
  "''A'' \<in> dom (ruleSet (new_Builder\<lparr>ruleSet := [''A'' \<mapsto> App ''x'']\<rparr>))
   \<and> Builder_define ''A'' (App ''y'') (new_Builder\<lparr>ruleSet := [''A'' \<mapsto> App ''x'']\<rparr>)
       = Inl (DuplicateRuleError ''A'')
   \<and> ruleSet childBuilder ''Nope'' = None
   \<and> superChain childBuilder = [baseGrammar]
   \<and> grules baseGrammar ''Nope'' = None
   \<and> Builder_override ''Nope'' (App ''y'') childBuilder = Inl (UndefinedRuleError ''Nope'')
   \<and> Builder_extend ''Nope'' (App ''y'') childBuilder = Inl (UndefinedRuleError ''Nope'')
   \<and> actGrammar Undefined
        (GrammarNode ''G'' None
           [RuleDefine ''A'' (BaseApplication ''x''), RuleDefine ''A'' (BaseApplication ''y'')])
        initial_world
       = (Inl (DuplicateRuleError ''A''), initial_world)"
proof -
  let ?d = "new_Builder\<lparr>ruleSet := [''A'' \<mapsto> App ''x'']\<rparr>"
  have dup: "''A'' \<in> dom (ruleSet ?d)" by simp
  have loc: "ruleSet childBuilder ''Nope'' = None"
    by (simp add: childBuilder_def Builder_setSuperGrammar_def Builder_setName_def
          new_Builder_def)
  have chain: "superChain childBuilder = [baseGrammar]"
    by (simp add: superChain_def childBuilder_def Builder_setSuperGrammar_def baseGrammar_def)
  have anc: "grules baseGrammar ''Nope'' = None" by (simp add: baseGrammar_def)
  have absent: "ruleSet childBuilder ''Nope'' = None
      \<and> (\<forall>g \<in> set (superChain childBuilder). grules g ''Nope'' = None)"
    using loc chain anc by simp
  have s: "actSuperGrammar Undefined None (Builder_setName ''G'' new_Builder) initial_world
             = (Inr (Builder_setName ''G'' new_Builder), initial_world)"
    by simp
  let ?b1 = "(Builder_setName ''G'' new_Builder)\<lparr>currentRuleName := Some ''A'',
               ruleSet := [''A'' \<mapsto> App ''x'']\<rparr>"
  have r1: "actRules [RuleDefine ''A'' (BaseApplication ''x'')] (Builder_setName ''G'' new_Builder)
              = Inr ?b1"
    by (simp add: Builder_define_def Builder_setName_def new_Builder_def Let_def)
  have r2: "actRule (RuleDefine ''A'' (BaseApplication ''y'')) ?b1 = Inl (DuplicateRuleError ''A'')"
    by (simp add: Builder_define_def Let_def)
  have g: "actGrammar Undefined
        (GrammarNode ''G'' None
           ([RuleDefine ''A'' (BaseApplication ''x'')] @ RuleDefine ''A'' (BaseApplication ''y'') # []))
        initial_world
       = (Inl (DuplicateRuleError ''A''), initial_world)"
    using rule_operation_failures[where optNamespace = Undefined and s = None and gn = "''G''"
        and w = initial_world and ?b1.0 = "Builder_setName ''G'' new_Builder"
        and ?w1.0 = initial_world and ?rs1.0 = "[RuleDefine ''A'' (BaseApplication ''x'')]"
        and ?b2.0 = ?b1 and r = "RuleDefine ''A'' (BaseApplication ''y'')"
        and err = "DuplicateRuleError ''A''" and ?rs2.0 = "[]"] s r1 r2
    by blast
  have d: "Builder_define ''A'' (App ''y'') ?d = Inl (DuplicateRuleError ''A'')"
    using rule_operation_failures[of "''A''" "App ''y''" ?d] dup by blast
  have o: "Builder_override ''Nope'' (App ''y'') childBuilder = Inl (UndefinedRuleError ''Nope'')"
    using rule_operation_failures[of "''Nope''" "App ''y''" childBuilder] absent by blast
  have x: "Builder_extend ''Nope'' (App ''y'') childBuilder = Inl (UndefinedRuleError ''Nope'')"
    using rule_operation_failures[of "''Nope''" "App ''y''" childBuilder] absent by blast
  from dup d loc chain anc o x g show ?thesis by simp
qed

section \<open>Inline rules\<close>

text \<open>
  C4, as stated, fails.  The rule \<^verbatim>\<open>addExpr\<close> of the design notes, compiled by
  \<^verbatim>\<open>'Rule-define'\<close>, gets the inline rules \<^verbatim>\<open>addExpr-plus\<close> and
  \<^verbatim>\<open>addExpr-minus\<close>: what follows the dash is the label written in the text, not an
  ordinal.  With the label \<^verbatim>\<open>plus\<close> written twice, both inline rules are named
  \<^verbatim>\<open>addExpr-plus\<close>: the names are not unique.
\<close>

theorem inline_names_not_ordinal_counterexample:
  "(case actRule (RuleDefine ''addExpr'' addExprBody) new_Builder of
      Inl e \<Rightarrow> None
    | Inr b \<Rightarrow> map_option inlineNames (ruleSet b ''addExpr''))
     = Some [''addExpr-plus'', ''addExpr-minus'']
   \<and> \<not> hasOrdinalForm ''addExpr'' ''addExpr-plus''
   \<and> (case actRule (RuleDefine ''addExpr'' twicePlusBody) new_Builder of
        Inl e \<Rightarrow> None
      | Inr b \<Rightarrow> map_option inlineNames (ruleSet b ''addExpr''))
       = Some [''addExpr-plus'', ''addExpr-plus'']
   \<and> \<not> distinct [''addExpr-plus'', ''addExpr-plus'']"
  by (simp add: addExprBody_def twicePlusBody_def new_Builder_def Builder_define_def Let_def
        inlineRuleName_def hasOrdinalForm_def isOrdinal_def)

text \<open>
  C4, amended.  Each rule action sets \<^verbatim>\<open>currentRuleName\<close> to the rule's name \<open>R\<close>
  immediately before it compiles the body, so that a value the field held before never
  reaches the rule or the rule set; the inline rules of the compiled body are named
  \<open>R\<close>, a dash and the label of the inline term, in the order of the text; these names
  are pairwise distinct exactly when the labels are; and the field is used only for
  this synthesis: apart from the names of its inline rules the compiled body is the
  same whatever the Builder holds (and wholly the same when it has no inline term),
  and the lookup, \<^verbatim>\<open>define\<close>, \<^verbatim>\<open>override\<close>, \<^verbatim>\<open>extend\<close> and \<^verbatim>\<open>build\<close> of the
  Builder do the same whatever the field holds.
\<close>

theorem inline_names_from_labels:
  "actRule (RuleDefine R c) b
     = Builder_define R (actExpr (b\<lparr>currentRuleName := Some R\<rparr>) c)
         (b\<lparr>currentRuleName := Some R\<rparr>)
   \<and> actRule (RuleOverride R c) b
     = Builder_override R (actExpr (b\<lparr>currentRuleName := Some R\<rparr>) c)
         (b\<lparr>currentRuleName := Some R\<rparr>)
   \<and> actRule (RuleExtend R c) b
     = Builder_extend R (actExpr (b\<lparr>currentRuleName := Some R\<rparr>) c)
         (b\<lparr>currentRuleName := Some R\<rparr>)
   \<and> inlineNames (actExpr (b\<lparr>currentRuleName := Some R\<rparr>) c)
     = map (\<lambda>n. R @ ''-'' @ n) (inlineLabels c)
   \<and> distinct (inlineNames (actExpr (b\<lparr>currentRuleName := Some R\<rparr>) c))
     = distinct (inlineLabels c)
   \<and> actRule r (b\<lparr>currentRuleName := stale\<rparr>) = actRule r b
   \<and> map_sum id ruleSet (actRules rs (b\<lparr>currentRuleName := stale\<rparr>))
     = map_sum id ruleSet (actRules rs b)
   \<and> eraseInline (actExpr b c) = eraseInline (actExpr b' c)
   \<and> (inlineLabels c = [] \<longrightarrow> actExpr b c = actExpr b' c)
   \<and> findRule (b\<lparr>currentRuleName := stale\<rparr>) n = findRule b n
   \<and> Builder_define n e (b\<lparr>currentRuleName := stale\<rparr>)
     = map_sum id (\<lambda>d. d\<lparr>currentRuleName := stale\<rparr>) (Builder_define n e b)
   \<and> Builder_override n e (b\<lparr>currentRuleName := stale\<rparr>)
     = map_sum id (\<lambda>d. d\<lparr>currentRuleName := stale\<rparr>) (Builder_override n e b)
   \<and> Builder_extend n e (b\<lparr>currentRuleName := stale\<rparr>)
     = map_sum id (\<lambda>d. d\<lparr>currentRuleName := stale\<rparr>) (Builder_extend n e b)
   \<and> Builder_build (b\<lparr>currentRuleName := stale\<rparr>) ns w = Builder_build b ns w"
proof -
  have rules: "actRule (RuleDefine R c) b
       = Builder_define R (actExpr (b\<lparr>currentRuleName := Some R\<rparr>) c)
           (b\<lparr>currentRuleName := Some R\<rparr>)
     \<and> actRule (RuleOverride R c) b
       = Builder_override R (actExpr (b\<lparr>currentRuleName := Some R\<rparr>) c)
           (b\<lparr>currentRuleName := Some R\<rparr>)
     \<and> actRule (RuleExtend R c) b
       = Builder_extend R (actExpr (b\<lparr>currentRuleName := Some R\<rparr>) c)
           (b\<lparr>currentRuleName := Some R\<rparr>)"
    by (simp add: Let_def)
  have names: "inlineNames (actExpr (b\<lparr>currentRuleName := Some R\<rparr>) c)
                 = map (\<lambda>n. R @ ''-'' @ n) (inlineLabels c)"
    by (simp add: inlineNames_actExpr inlineRuleName_def)
  have uniq: "distinct (inlineNames (actExpr (b\<lparr>currentRuleName := Some R\<rparr>) c))
                = distinct (inlineLabels c)"
    by (rule distinct_inlineNames)
  have stale: "actRule r (b\<lparr>currentRuleName := stale\<rparr>) = actRule r b"
    by (cases r) simp_all
  have stales: "map_sum id ruleSet (actRules rs (b\<lparr>currentRuleName := stale\<rparr>))
                  = map_sum id ruleSet (actRules rs b)"
    by (rule actRules_ruleSet_ignores_stale_name)
  have erase: "eraseInline (actExpr b c) = eraseInline (actExpr b' c)"
    by (rule eraseInline_actExpr)
  have only: "inlineLabels c = [] \<longrightarrow> actExpr b c = actExpr b' c"
    by (simp add: actExpr_without_inline)
  note ops = Builder_ops_ignore_currentRuleName[where b = b and x = stale]
  from rules names uniq stale stales erase only ops(1)[where n = n]
    ops(2)[where n = n and e = e] ops(3)[where n = n and e = e]
    ops(4)[where n = n and e = e] ops(5)[where ns = ns and w = w]
  show ?thesis by blast
qed

theorem inline_names_from_labels_witness:
  "inlineNames (actExpr (new_Builder\<lparr>currentRuleName := Some ''addExpr''\<rparr>) addExprBody)
     = [''addExpr-plus'', ''addExpr-minus'']
   \<and> inlineLabels addExprBody = [''plus'', ''minus'']
   \<and> distinct (inlineNames (actExpr (new_Builder\<lparr>currentRuleName := Some ''addExpr''\<rparr>) addExprBody))
   \<and> inlineLabels (SeqNode [BaseApplication ''mulExpr'']) = []
   \<and> actExpr new_Builder (SeqNode [BaseApplication ''mulExpr''])
       = actExpr childBuilder (SeqNode [BaseApplication ''mulExpr''])
   \<and> eraseInline (actExpr (new_Builder\<lparr>currentRuleName := Some ''addExpr''\<rparr>) addExprBody)
       = eraseInline (actExpr (new_Builder\<lparr>currentRuleName := Some ''mulExpr''\<rparr>) addExprBody)"
proof -
  have l: "inlineLabels addExprBody = [''plus'', ''minus'']"
    by (simp add: addExprBody_def)
  have e: "inlineLabels (SeqNode [BaseApplication ''mulExpr'']) = []" by simp
  from inline_names_from_labels[where b = new_Builder and R = "''addExpr''" and c = addExprBody]
  have n: "inlineNames (actExpr (new_Builder\<lparr>currentRuleName := Some ''addExpr''\<rparr>) addExprBody)
             = [''addExpr-plus'', ''addExpr-minus'']"
    and d: "distinct (inlineNames (actExpr (new_Builder\<lparr>currentRuleName := Some ''addExpr''\<rparr>) addExprBody))"
    by (simp_all add: l)
  from inline_names_from_labels[where b = new_Builder and b' = childBuilder
      and c = "SeqNode [BaseApplication ''mulExpr'']"] e
  have i: "actExpr new_Builder (SeqNode [BaseApplication ''mulExpr''])
       = actExpr childBuilder (SeqNode [BaseApplication ''mulExpr''])"
    by blast
  from inline_names_from_labels[where b = "new_Builder\<lparr>currentRuleName := Some ''addExpr''\<rparr>"
      and b' = "new_Builder\<lparr>currentRuleName := Some ''mulExpr''\<rparr>" and c = addExprBody]
  have r: "eraseInline (actExpr (new_Builder\<lparr>currentRuleName := Some ''addExpr''\<rparr>) addExprBody)
       = eraseInline (actExpr (new_Builder\<lparr>currentRuleName := Some ''mulExpr''\<rparr>) addExprBody)"
    by blast
  from n l d e i r show ?thesis by blast
qed

section \<open>Facts about namespaces and the grammar actions\<close>

text \<open>
  What \<^verbatim>\<open>exports.namespace\<close> does in each of the three cases of the read, and what
  it leaves alone: the objects already in the heap and the entries already in the
  registry.
\<close>

lemma namespace_creates:
  "namespaces_get w name = Undefined \<Longrightarrow>
   namespace name w =
     (NamespaceObj (length (heap w)),
      w\<lparr>namespaces := (namespaces w)(name \<mapsto> length (heap w)),
        heap := heap w @ [new_Namespace name]\<rparr>)"
  by (simp add: namespace_def namespaces_get_def)

lemma namespace_registered:
  "namespaces w name = Some r \<Longrightarrow> namespace name w = (NamespaceObj r, w)"
  by (simp add: namespace_def namespaces_get_def)

lemma namespace_inherited:
  "namespaces w name = None \<Longrightarrow> name \<in> set Object_prototype_keys \<Longrightarrow>
   namespace name w = (InheritedMember name, w)"
  by (simp add: namespace_def namespaces_get_def)

lemma namespaces_get_Undefined:
  "namespaces_get w name = Undefined \<longleftrightarrow>
     namespaces w name = None \<and> name \<notin> set Object_prototype_keys"
  by (simp add: namespaces_get_def split: option.splits)

lemma namespace_idempotent:
  "namespace name (snd (namespace name w)) = namespace name w"
  by (cases "namespaces_get w name = Undefined")
     (simp_all add: namespace_def namespaces_get_def)

lemma namespace_heap_frame:
  "r < length (heap w) \<Longrightarrow> heap (snd (namespace name w)) ! r = heap w ! r"
  by (simp add: namespace_def Let_def nth_append)

lemma namespace_registry_frame:
  "namespaces w k = Some r \<Longrightarrow> namespaces (snd (namespace name w)) k = Some r"
  by (auto simp: namespace_def Let_def namespaces_get_def split: option.splits)

lemma namespace_wf:
  "wf_world w \<Longrightarrow> wf_world (snd (namespace name w))"
  unfolding wf_world_def namespace_def Let_def
  by (auto simp: less_Suc_eq split: if_splits)

lemma namespace_distinct:
  assumes "wf_world w" "n \<noteq> m"
    "n \<notin> set Object_prototype_keys" "m \<notin> set Object_prototype_keys"
  shows "fst (namespace n w) \<noteq> fst (namespace m (snd (namespace n w)))"
  using assms unfolding wf_world_def namespace_def Let_def namespaces_get_def
  by (auto split: option.splits if_splits)

lemma qualified_unregistered:
  "namespaces_get w ns = Undefined \<Longrightarrow>
   actSuperGrammarRef optNamespace (SuperGrammarQualified ns g) w =
     (Inl (UnknownGrammarError g),
      w\<lparr>namespaces := (namespaces w)(ns \<mapsto> length (heap w)),
        heap := heap w @ [new_Namespace ns]\<rparr>)"
  by (simp add: namespace_creates call_getGrammar_def Namespace_getGrammar_def new_Namespace_def)

lemma actSuperGrammarRef_heap_frame:
  "actSuperGrammarRef optNamespace s w = (x, w') \<Longrightarrow> r < length (heap w) \<Longrightarrow>
   heap w' ! r = heap w ! r"
proof (cases s)
  case (SuperGrammarQualified ns g)
  assume a: "actSuperGrammarRef optNamespace s w = (x, w')" and r: "r < length (heap w)"
  from a SuperGrammarQualified have "w' = snd (namespace ns w)"
    by (auto split: prod.splits)
  with r show ?thesis by (simp add: namespace_heap_frame)
next
  case (SuperGrammarUnqualified g)
  assume "actSuperGrammarRef optNamespace s w = (x, w')"
  with SuperGrammarUnqualified show ?thesis by simp
qed

lemma actSuperGrammar_heap_frame:
  "actSuperGrammar optNamespace s b w = (x, w') \<Longrightarrow> r < length (heap w) \<Longrightarrow>
   heap w' ! r = heap w ! r"
  by (cases s) (auto split: prod.splits sum.splits dest: actSuperGrammarRef_heap_frame)

lemma actSuperGrammar_without_namespace:
  "\<not> hasUnqualifiedSuper (GrammarNode n s rs) \<Longrightarrow>
   actSuperGrammar Undefined s b w = actSuperGrammar optNamespace s b w"
proof (cases s)
  case None
  then show ?thesis by simp
next
  case (Some ref)
  assume "\<not> hasUnqualifiedSuper (GrammarNode n s rs)"
  with Some obtain ns g where "ref = SuperGrammarQualified ns g"
    by (cases ref) auto
  with Some show ?thesis by simp
qed

lemma actGrammar_result_without_namespace:
  "\<not> hasUnqualifiedSuper c \<Longrightarrow>
   fst (actGrammar Undefined c w) = fst (actGrammar optNamespace c w)"
proof (cases c)
  case (GrammarNode n s rs)
  assume "\<not> hasUnqualifiedSuper c"
  with GrammarNode have
    "actSuperGrammar Undefined s (Builder_setName n new_Builder) w
       = actSuperGrammar optNamespace s (Builder_setName n new_Builder) w"
    by (simp add: actSuperGrammar_without_namespace)
  with GrammarNode show ?thesis
    by (simp add: Builder_build_def split: prod.splits sum.splits)
qed

lemma actGrammar_unqualified_fails:
  "hasUnqualifiedSuper c \<Longrightarrow> actGrammar Undefined c w = (Inl TypeError, w)"
  by (induction c rule: hasUnqualifiedSuper.induct) (simp_all add: call_getGrammar_def)

lemma actGrammars_unqualified_fails:
  "list_ex hasUnqualifiedSuper cs \<Longrightarrow> isl (fst (actGrammars Undefined cs w))"
proof (induction cs arbitrary: w)
  case Nil
  then show ?case by simp
next
  case (Cons c cs)
  show ?case
  proof (cases "hasUnqualifiedSuper c")
    case True
    then show ?thesis by (simp add: actGrammar_unqualified_fails)
  next
    case False
    with Cons.prems have "list_ex hasUnqualifiedSuper cs" by simp
    then have ih: "\<And>w1. isl (fst (actGrammars Undefined cs w1))" by (rule Cons.IH)
    obtain res w1 where c: "actGrammar Undefined c w = (res, w1)"
      by (cases "actGrammar Undefined c w")
    show ?thesis
    proof (cases res)
      case (Inl e)
      with c show ?thesis by simp
    next
      case (Inr g)
      obtain res2 w2 where cs: "actGrammars Undefined cs w1 = (res2, w2)"
        by (cases "actGrammars Undefined cs w1")
      with ih[of w1] obtain e where "res2 = Inl e" by (cases res2) auto
      with c Inr cs show ?thesis by simp
    qed
  qed
qed

lemma actGrammar_no_super:
  "actGrammar Undefined (GrammarNode n None rs) w =
     (case actRules rs (Builder_setName n new_Builder) of
        Inl e \<Rightarrow> (Inl e, w)
      | Inr d \<Rightarrow> (Inr (Grammar (Some n) (ruleSet d) None), w))"
proof (cases "actRules rs (Builder_setName n new_Builder)")
  case (Inl e)
  then show ?thesis by simp
next
  case (Inr d)
  from actRules_keeps_fields[OF Inr] have "grammarName d = Some n" "superGrammar d = None"
    by (simp_all add: Builder_setName_def new_Builder_def)
  with Inr show ?thesis by (simp add: Builder_build_def)
qed

lemma actGrammar_qualified_registered:
  assumes "namespaces w ns = Some r"
  shows "actGrammar Undefined (GrammarNode n (Some (SuperGrammarQualified ns g)) rs) w =
     (case Namespace_getGrammar (heap w ! r) g of
        Inl e \<Rightarrow> (Inl e, w)
      | Inr sg \<Rightarrow>
          (case actRules rs (Builder_setSuperGrammar sg (Builder_setName n new_Builder)) of
             Inl e \<Rightarrow> (Inl e, w)
           | Inr d \<Rightarrow> (Inr (Grammar (Some n) (ruleSet d) (Some sg)), w)))"
proof (cases "Namespace_getGrammar (heap w ! r) g")
  case (Inl e)
  with assms show ?thesis by (simp add: namespace_registered call_getGrammar_def)
next
  case sg: (Inr sg)
  show ?thesis
  proof (cases "actRules rs (Builder_setSuperGrammar sg (Builder_setName n new_Builder))")
    case (Inl e)
    with assms sg show ?thesis by (simp add: namespace_registered call_getGrammar_def)
  next
    case (Inr d)
    from actRules_keeps_fields[OF Inr]
    have "grammarName d = Some n" "superGrammar d = Some sg"
      by (simp_all add: Builder_setName_def Builder_setSuperGrammar_def new_Builder_def)
    with assms sg Inr show ?thesis
      by (simp add: namespace_registered call_getGrammar_def Builder_build_def)
  qed
qed

lemma actGrammar_success_world:
  assumes "actGrammar Undefined c w = (Inr g, w')"
  shows "w' = w"
proof (cases c)
  case (GrammarNode n s rs)
  show ?thesis
  proof (cases s)
    case None
    with assms GrammarNode show ?thesis
      by (auto simp: Builder_build_def split: sum.splits)
  next
    case (Some ref)
    show ?thesis
    proof (cases ref)
      case (SuperGrammarQualified ns x)
      show ?thesis
      proof (cases "namespaces_get w ns = Undefined")
        case True
        from qualified_unregistered[OF True, of Undefined x] assms GrammarNode Some
          SuperGrammarQualified
        show ?thesis by simp
      next
        case False
        then have "snd (namespace ns w) = w" by (simp add: namespace_def)
        moreover from assms GrammarNode Some SuperGrammarQualified
        have "w' = snd (namespace ns w)"
          by (auto simp: Builder_build_def split: prod.splits sum.splits)
        ultimately show ?thesis by simp
      qed
    next
      case (SuperGrammarUnqualified x)
      with assms GrammarNode Some show ?thesis by (simp add: call_getGrammar_def)
    qed
  qed
qed

lemma actGrammars_all_compile:
  "list_all2 (\<lambda>c g. fst (actGrammar Undefined c w) = Inr g) cs gs \<Longrightarrow>
   actGrammars Undefined cs w = (Inr gs, w)"
proof (induction cs arbitrary: gs)
  case Nil
  then show ?case by simp
next
  case (Cons c cs)
  then obtain g rest where gs: "gs = g # rest"
    and c: "fst (actGrammar Undefined c w) = Inr g"
    and r: "list_all2 (\<lambda>c g. fst (actGrammar Undefined c w) = Inr g) cs rest"
    by (auto simp: list_all2_Cons1)
  obtain w' where run: "actGrammar Undefined c w = (Inr g, w')"
    using c by (cases "actGrammar Undefined c w") auto
  from actGrammar_success_world[OF run] run have "actGrammar Undefined c w = (Inr g, w)"
    by simp
  with Cons.IH[OF r] gs show ?case by simp
qed

lemma actGrammars_then_unqualified:
  "actGrammars Undefined cs1 w = (Inr gs, w1) \<Longrightarrow> hasUnqualifiedSuper c \<Longrightarrow>
   actGrammars Undefined (cs1 @ c # cs2) w = (Inl TypeError, w1)"
proof (induction cs1 arbitrary: w gs)
  case Nil
  then show ?case by (simp add: actGrammar_unqualified_fails)
next
  case (Cons d ds)
  from Cons.prems(1) obtain g wd rest where
    d: "actGrammar Undefined d w = (Inr g, wd)" and
    ds: "actGrammars Undefined ds wd = (Inr rest, w1)"
    by (auto split: prod.splits sum.splits)
  from Cons.IH[OF ds Cons.prems(2)] d show ?case by simp
qed

section \<open>Malformed source\<close>

text \<open>
  C7. When the text does not match (the parser answers no tree), \<^verbatim>\<open>compileAndLoad\<close>,
  \<^verbatim>\<open>makeGrammar\<close> and \<^verbatim>\<open>makeGrammars\<close> end with MalformedSourceError for that
  text; no action runs, so no grammar is returned, and the world, with the supplied
  namespace in it, is as it was.
\<close>

theorem malformed_source_fails:
  "(matchContents source whatItIs = None \<longrightarrow>
      compileAndLoad matchContents source whatItIs optNamespace w
        = (Inl (MalformedSourceError source), w))
   \<and> (matchContents source ''Grammar'' = None \<longrightarrow>
      makeGrammar matchContents source optNamespace w = (Inl (MalformedSourceError source), w))
   \<and> (matchContents source ''Grammars'' = None \<longrightarrow>
      makeGrammars matchContents source optNamespace w = (Inl (MalformedSourceError source), w))"
  by (simp add: compileAndLoad_def makeGrammar_def makeGrammars_def)

theorem malformed_source_fails_witness:
  "exampleParser ''G {'' ''Grammar'' = None
   \<and> exampleParser ''G {'' ''Grammars'' = None
   \<and> makeGrammar exampleParser ''G {'' (NamespaceObj 0) exampleWorld
       = (Inl (MalformedSourceError ''G {''), exampleWorld)
   \<and> makeGrammars exampleParser ''G {'' (NamespaceObj 0) exampleWorld
       = (Inl (MalformedSourceError ''G {''), exampleWorld)"
proof -
  have p: "exampleParser ''G {'' ''Grammar'' = None" "exampleParser ''G {'' ''Grammars'' = None"
    by (simp_all add: exampleParser_def)
  from malformed_source_fails[of exampleParser "''G {''" _ "NamespaceObj 0" exampleWorld] p
  show ?thesis by blast
qed

section \<open>Super-grammar references\<close>

text \<open>
  C10. Called without a namespace, the \<^verbatim>\<open>Grammar\<close> action fails on a declaration
  whose super-grammar reference is unqualified (with JavaScript's TypeError, before any
  rule is compiled, in whatever state the registry is), so \<^verbatim>\<open>makeGrammar\<close> fails on
  it, and \<^verbatim>\<open>makeGrammars\<close> fails on a batch at the first such declaration, after the
  declarations before it have compiled.  Under the same call a declaration without a
  super-grammar compiles exactly when its rules do, to the grammar of its name and
  rules; a declaration with a qualified reference to a registered namespace compiles
  exactly when that namespace holds the grammar and the rules compile, to the grammar
  with that super-grammar; \<^verbatim>\<open>makeGrammar\<close> returns the grammar of a declaration that
  compiles, and \<^verbatim>\<open>makeGrammars\<close> returns the grammars of a batch whose declarations
  all compile, in order.  The resolution of a qualified reference does not read the
  namespace argument, and the grammar, or error, of such a declaration is the one the
  call with a namespace gives.
\<close>

theorem unqualified_super_without_namespace:
  "(hasUnqualifiedSuper c \<longrightarrow> actGrammar Undefined c w = (Inl TypeError, w))
   \<and> (matchContents source ''Grammar'' = Some (GrammarTop c) \<and> hasUnqualifiedSuper c \<longrightarrow>
        makeGrammar matchContents source Undefined w = (Inl TypeError, w))
   \<and> (matchContents source ''Grammars'' = Some (GrammarsTop (cs1 @ c # cs2))
        \<and> actGrammars Undefined cs1 w = (Inr gs1, w1) \<and> hasUnqualifiedSuper c \<longrightarrow>
        makeGrammars matchContents source Undefined w = (Inl TypeError, w1))
   \<and> (matchContents source ''Grammars'' = Some (GrammarsTop cs)
        \<and> list_ex hasUnqualifiedSuper cs \<longrightarrow>
        isl (fst (makeGrammars matchContents source Undefined w)))
   \<and> actGrammar Undefined (GrammarNode n None rs) w =
        (case actRules rs (Builder_setName n new_Builder) of
           Inl e \<Rightarrow> (Inl e, w)
         | Inr d \<Rightarrow> (Inr (Grammar (Some n) (ruleSet d) None), w))
   \<and> (namespaces w ns = Some r \<longrightarrow>
        actGrammar Undefined (GrammarNode n (Some (SuperGrammarQualified ns g)) rs) w =
          (case Namespace_getGrammar (heap w ! r) g of
             Inl e \<Rightarrow> (Inl e, w)
           | Inr sg \<Rightarrow>
               (case actRules rs (Builder_setSuperGrammar sg (Builder_setName n new_Builder)) of
                  Inl e \<Rightarrow> (Inl e, w)
                | Inr d \<Rightarrow> (Inr (Grammar (Some n) (ruleSet d) (Some sg)), w))))
   \<and> (matchContents source ''Grammar'' = Some (GrammarTop c)
        \<and> fst (actGrammar Undefined c w) = Inr gr \<longrightarrow>
        makeGrammar matchContents source Undefined w = (Inr (LoadedGrammar gr), w))
   \<and> (matchContents source ''Grammars'' = Some (GrammarsTop cs)
        \<and> list_all2 (\<lambda>c gr. fst (actGrammar Undefined c w) = Inr gr) cs gs \<longrightarrow>
        makeGrammars matchContents source Undefined w = (Inr (LoadedGrammars gs), w))
   \<and> (\<not> hasUnqualifiedSuper (GrammarNode n s rs) \<longrightarrow>
        actSuperGrammar Undefined s b w = actSuperGrammar optNamespace s b w)
   \<and> (\<not> hasUnqualifiedSuper c \<longrightarrow>
        fst (actGrammar Undefined c w) = fst (actGrammar optNamespace c w))"
proof -
  have a: "hasUnqualifiedSuper c \<longrightarrow> actGrammar Undefined c w = (Inl TypeError, w)"
    by (simp add: actGrammar_unqualified_fails)
  have a': "matchContents source ''Grammar'' = Some (GrammarTop c) \<and> hasUnqualifiedSuper c \<longrightarrow>
      makeGrammar matchContents source Undefined w = (Inl TypeError, w)"
    by (simp add: makeGrammar_def compileAndLoad_def actGrammar_unqualified_fails)
  have b1: "matchContents source ''Grammars'' = Some (GrammarsTop (cs1 @ c # cs2))
        \<and> actGrammars Undefined cs1 w = (Inr gs1, w1) \<and> hasUnqualifiedSuper c \<longrightarrow>
        makeGrammars matchContents source Undefined w = (Inl TypeError, w1)"
    by (simp add: makeGrammars_def compileAndLoad_def actGrammars_then_unqualified)
  have b: "matchContents source ''Grammars'' = Some (GrammarsTop cs)
        \<and> list_ex hasUnqualifiedSuper cs \<longrightarrow>
      isl (fst (makeGrammars matchContents source Undefined w))"
  proof (intro impI, elim conjE)
    assume m: "matchContents source ''Grammars'' = Some (GrammarsTop cs)"
      and u: "list_ex hasUnqualifiedSuper cs"
    obtain res w2 where r: "actGrammars Undefined cs w = (res, w2)"
      by (cases "actGrammars Undefined cs w")
    with actGrammars_unqualified_fails[OF u, of w] obtain e where "res = Inl e"
      by (cases res) auto
    with m r show "isl (fst (makeGrammars matchContents source Undefined w))"
      by (simp add: makeGrammars_def compileAndLoad_def)
  qed
  have d: "actGrammar Undefined (GrammarNode n None rs) w =
        (case actRules rs (Builder_setName n new_Builder) of
           Inl e \<Rightarrow> (Inl e, w)
         | Inr d \<Rightarrow> (Inr (Grammar (Some n) (ruleSet d) None), w))"
    by (rule actGrammar_no_super)
  have q: "namespaces w ns = Some r \<longrightarrow>
        actGrammar Undefined (GrammarNode n (Some (SuperGrammarQualified ns g)) rs) w =
          (case Namespace_getGrammar (heap w ! r) g of
             Inl e \<Rightarrow> (Inl e, w)
           | Inr sg \<Rightarrow>
               (case actRules rs (Builder_setSuperGrammar sg (Builder_setName n new_Builder)) of
                  Inl e \<Rightarrow> (Inl e, w)
                | Inr d \<Rightarrow> (Inr (Grammar (Some n) (ruleSet d) (Some sg)), w)))"
    using actGrammar_qualified_registered[of w ns r n g rs] by blast
  have f: "matchContents source ''Grammar'' = Some (GrammarTop c)
        \<and> fst (actGrammar Undefined c w) = Inr gr \<longrightarrow>
        makeGrammar matchContents source Undefined w = (Inr (LoadedGrammar gr), w)"
  proof (intro impI, elim conjE)
    assume m: "matchContents source ''Grammar'' = Some (GrammarTop c)"
      and s: "fst (actGrammar Undefined c w) = Inr gr"
    obtain w' where run: "actGrammar Undefined c w = (Inr gr, w')"
      using s by (cases "actGrammar Undefined c w") auto
    from actGrammar_success_world[OF run] run m
    show "makeGrammar matchContents source Undefined w = (Inr (LoadedGrammar gr), w)"
      by (simp add: makeGrammar_def compileAndLoad_def)
  qed
  have gsall: "matchContents source ''Grammars'' = Some (GrammarsTop cs)
        \<and> list_all2 (\<lambda>c gr. fst (actGrammar Undefined c w) = Inr gr) cs gs \<longrightarrow>
        makeGrammars matchContents source Undefined w = (Inr (LoadedGrammars gs), w)"
  proof (intro impI, elim conjE)
    assume m: "matchContents source ''Grammars'' = Some (GrammarsTop cs)"
      and l: "list_all2 (\<lambda>c gr. fst (actGrammar Undefined c w) = Inr gr) cs gs"
    from actGrammars_all_compile[OF l] m
    show "makeGrammars matchContents source Undefined w = (Inr (LoadedGrammars gs), w)"
      by (simp add: makeGrammars_def compileAndLoad_def)
  qed
  have s: "\<not> hasUnqualifiedSuper (GrammarNode n s rs) \<longrightarrow>
        actSuperGrammar Undefined s b w = actSuperGrammar optNamespace s b w"
    by (simp add: actSuperGrammar_without_namespace)
  have e: "\<not> hasUnqualifiedSuper c \<longrightarrow>
        fst (actGrammar Undefined c w) = fst (actGrammar optNamespace c w)"
    by (simp add: actGrammar_result_without_namespace)
  from a a' b1 b d q f gsall s e show ?thesis by blast
qed

theorem unqualified_super_without_namespace_witness:
  "exampleParser ''unqualified'' ''Grammar'' = Some (GrammarTop unqualifiedDecl)
   \<and> hasUnqualifiedSuper unqualifiedDecl
   \<and> makeGrammar exampleParser ''unqualified'' Undefined exampleWorld
       = (Inl TypeError, exampleWorld)
   \<and> makeGrammars exampleParser ''plain unqualified'' Undefined exampleWorld
       = (Inl TypeError, exampleWorld)
   \<and> makeGrammar exampleParser ''plain'' Undefined exampleWorld
       = (Inr (LoadedGrammar (Grammar (Some ''G'') [''A'' \<mapsto> Seq [Prim (JString ''a'')]] None)),
          exampleWorld)
   \<and> makeGrammar exampleParser ''qualified'' Undefined exampleWorld
       = (Inr (LoadedGrammar
                (Grammar (Some ''Q'') [''Bar'' \<mapsto> Seq [Prim (JString ''x'')]] (Some baseGrammar))),
          exampleWorld)
   \<and> makeGrammars exampleParser ''plain qualified'' Undefined exampleWorld
       = (Inr (LoadedGrammars
                [Grammar (Some ''G'') [''A'' \<mapsto> Seq [Prim (JString ''a'')]] None,
                 Grammar (Some ''Q'') [''Bar'' \<mapsto> Seq [Prim (JString ''x'')]] (Some baseGrammar)]),
          exampleWorld)"
proof -
  let ?G = "Grammar (Some ''G'') [''A'' \<mapsto> Seq [Prim (JString ''a'')]] None"
  let ?Q = "Grammar (Some ''Q'') [''Bar'' \<mapsto> Seq [Prim (JString ''x'')]] (Some baseGrammar)"
  have p1: "exampleParser ''unqualified'' ''Grammar'' = Some (GrammarTop unqualifiedDecl)"
    and p2: "exampleParser ''plain unqualified'' ''Grammars''
               = Some (GrammarsTop ([plainDecl] @ unqualifiedDecl # []))"
    and p3: "exampleParser ''plain qualified'' ''Grammars''
               = Some (GrammarsTop [plainDecl, qualifiedDecl])"
    and p4: "exampleParser ''plain'' ''Grammar'' = Some (GrammarTop plainDecl)"
    and p5: "exampleParser ''qualified'' ''Grammar'' = Some (GrammarTop qualifiedDecl)"
    by (simp_all add: exampleParser_def)
  have u: "hasUnqualifiedSuper unqualifiedDecl"
    by (simp add: unqualifiedDecl_def)
  have reg: "namespaces exampleWorld ''ns'' = Some 0"
    by (simp add: exampleWorld_def)
  have plain: "actGrammar Undefined plainDecl exampleWorld = (Inr ?G, exampleWorld)"
    unfolding plainDecl_def
    using unqualified_super_without_namespace[where n = "''G''" and w = exampleWorld
        and rs = "[RuleDefine ''A'' (SeqNode [BasePrim (JString ''a'')])]"]
    by (simp add: Builder_setName_def new_Builder_def Builder_define_def Let_def)
  have qual: "actGrammar Undefined qualifiedDecl exampleWorld = (Inr ?Q, exampleWorld)"
    unfolding qualifiedDecl_def
    using unqualified_super_without_namespace[where n = "''Q''" and w = exampleWorld
        and ns = "''ns''" and r = 0 and g = "''Base''"
        and rs = "[RuleOverride ''Bar'' (SeqNode [BasePrim (JString ''x'')])]"] reg
    by (simp add: exampleWorld_def Namespace_getGrammar_def Builder_setSuperGrammar_def
          Builder_setName_def new_Builder_def Builder_override_def findRule_def baseGrammar_def
          Let_def)
  have a: "makeGrammar exampleParser ''unqualified'' Undefined exampleWorld
             = (Inl TypeError, exampleWorld)"
    using unqualified_super_without_namespace[where matchContents = exampleParser
        and source = "''unqualified''" and c = unqualifiedDecl and w = exampleWorld] p1 u
    by blast
  have pre: "actGrammars Undefined [plainDecl] exampleWorld = (Inr [?G], exampleWorld)"
    using plain by simp
  have b: "makeGrammars exampleParser ''plain unqualified'' Undefined exampleWorld
             = (Inl TypeError, exampleWorld)"
    using unqualified_super_without_namespace[where matchContents = exampleParser
        and source = "''plain unqualified''" and ?cs1.0 = "[plainDecl]" and c = unqualifiedDecl
        and ?cs2.0 = "[]" and w = exampleWorld and ?gs1.0 = "[?G]" and ?w1.0 = exampleWorld]
      p2 pre u
    by blast
  have c: "makeGrammar exampleParser ''plain'' Undefined exampleWorld
       = (Inr (LoadedGrammar ?G), exampleWorld)"
    using unqualified_super_without_namespace[where matchContents = exampleParser
        and source = "''plain''" and c = plainDecl and w = exampleWorld and gr = ?G] p4 plain
    by simp
  have d: "makeGrammar exampleParser ''qualified'' Undefined exampleWorld
       = (Inr (LoadedGrammar ?Q), exampleWorld)"
    using unqualified_super_without_namespace[where matchContents = exampleParser
        and source = "''qualified''" and c = qualifiedDecl and w = exampleWorld and gr = ?Q]
      p5 qual
    by simp
  have all: "list_all2 (\<lambda>c gr. fst (actGrammar Undefined c exampleWorld) = Inr gr)
               [plainDecl, qualifiedDecl] [?G, ?Q]"
    using plain qual by simp
  have e: "makeGrammars exampleParser ''plain qualified'' Undefined exampleWorld
       = (Inr (LoadedGrammars [?G, ?Q]), exampleWorld)"
    using unqualified_super_without_namespace[where matchContents = exampleParser
        and source = "''plain qualified''" and cs = "[plainDecl, qualifiedDecl]"
        and w = exampleWorld and gs = "[?G, ?Q]"] p3 all
    by blast
  from p1 u a b c d e show ?thesis by blast
qed

text \<open>
  C9, at a declaration whose super-grammar is the qualified reference
  \<^verbatim>\<open>constructor.Base\<close>, in the initial world: the read
  \<^verbatim>\<open>namespaces['constructor']\<close> is answered by \<^verbatim>\<open>Object.prototype\<close>, so no
  Namespace is created or registered and the call of \<^verbatim>\<open>getGrammar\<close> on the inherited
  value fails with a TypeError, not with UnknownGrammarError.  For a name the prototype
  does not answer (\<^verbatim>\<open>other\<close>) the Namespace is created and registered and the lookup
  fails with UnknownGrammarError, as \<open>qualified_unregistered\<close> shows in general.
\<close>

theorem qualified_super_inherited_name:
  "actSuperGrammarRef Undefined (SuperGrammarQualified ''constructor'' ''Base'') initial_world
     = (Inl TypeError, initial_world)
   \<and> actGrammar Undefined
        (GrammarNode ''G'' (Some (SuperGrammarQualified ''constructor'' ''Base'')) [])
        initial_world
       = (Inl TypeError, initial_world)
   \<and> actSuperGrammarRef Undefined (SuperGrammarQualified ''other'' ''Base'') initial_world
       = (Inl (UnknownGrammarError ''Base''),
          \<lparr>namespaces = [''other'' \<mapsto> 0], heap = [new_Namespace ''other'']\<rparr>)"
  by (simp add: namespace_def namespaces_get_def initial_world_def Object_prototype_keys_def
        call_getGrammar_def Namespace_getGrammar_def new_Namespace_def)

section \<open>The registry of namespaces\<close>

text \<open>
  C6, at the names \<^verbatim>\<open>constructor\<close> and \<^verbatim>\<open>toString\<close> in the initial world:
  \<^verbatim>\<open>namespace\<close> creates nothing and returns the member inherited from
  \<^verbatim>\<open>Object.prototype\<close>, which is not a Namespace.  For a name the prototype does not
  answer (\<^verbatim>\<open>Arithmetic\<close>) it creates and registers a Namespace; \<open>namespace_creates\<close>,
  \<open>namespace_idempotent\<close> and \<open>namespace_distinct\<close> show get-or-create for those names.
\<close>

theorem namespace_inherited_name:
  "namespace ''constructor'' initial_world = (InheritedMember ''constructor'', initial_world)
   \<and> namespaces (snd (namespace ''constructor'' initial_world)) ''constructor'' = None
   \<and> namespace ''toString'' initial_world = (InheritedMember ''toString'', initial_world)
   \<and> namespace ''Arithmetic'' initial_world
       = (NamespaceObj 0,
          \<lparr>namespaces = [''Arithmetic'' \<mapsto> 0], heap = [new_Namespace ''Arithmetic'']\<rparr>)"
  by (simp add: namespace_def namespaces_get_def initial_world_def Object_prototype_keys_def)

end
